theory Spec2Isabelle
  imports Complex_Main "HOL-Library.AList"
begin

section \<open>Numbers of the ratio engine\<close>

text \<open>
  Every numeric column of the analyser is a pandas column of doubles. A cell is modelled
  as an exact real or one of the special values of the number format: the negative zero,
  the two infinities and not-a-number. \<open>Fin 0\<close> is the positive zero. Finite results are
  exact: rounding, overflow and underflow of the binary format are not part of the model,
  and a decimal literal of the source (\<open>0.1\<close>, \<open>784.9\<close>) denotes the decimal number.
  The special values follow the number format: a non-zero number divided by a zero is an
  infinity, zero divided by zero is not-a-number, and not-a-number propagates.
\<close>

datatype f64 = Fin real | NegZero | PosInf | NegInf | NaN

fun is_nan :: "f64 \<Rightarrow> bool" where
  "is_nan NaN = True"
| "is_nan _ = False"

fun is_inf :: "f64 \<Rightarrow> bool" where
  "is_inf PosInf = True"
| "is_inf NegInf = True"
| "is_inf _ = False"

fun is_zero :: "f64 \<Rightarrow> bool" where
  "is_zero (Fin r) = (r = 0)"
| "is_zero NegZero = True"
| "is_zero _ = False"

fun is_finite :: "f64 \<Rightarrow> bool" where
  "is_finite (Fin r) = True"
| "is_finite NegZero = True"
| "is_finite _ = False"

text \<open>The sign bit; it is never read on not-a-number.\<close>

fun sign_bit :: "f64 \<Rightarrow> bool" where
  "sign_bit (Fin r) = (r < 0)"
| "sign_bit NegZero = True"
| "sign_bit NegInf = True"
| "sign_bit _ = False"

text \<open>The real number a finite cell stands for (both zeros stand for 0).\<close>

fun valof :: "f64 \<Rightarrow> real" where
  "valof (Fin r) = r"
| "valof _ = 0"

definition zero_of_sign :: "bool \<Rightarrow> f64" where
  "zero_of_sign s = (if s then NegZero else Fin 0)"

definition inf_of_sign :: "bool \<Rightarrow> f64" where
  "inf_of_sign s = (if s then NegInf else PosInf)"

definition fin_of_sign :: "bool \<Rightarrow> real \<Rightarrow> f64" where
  "fin_of_sign s r = (if r = 0 then zero_of_sign s else Fin r)"

text \<open>\<open>x / y\<close> on doubles.\<close>

definition f_div :: "f64 \<Rightarrow> f64 \<Rightarrow> f64" where
  "f_div x y =
     (let s = (sign_bit x \<noteq> sign_bit y) in
      if is_nan x \<or> is_nan y then NaN
      else if is_inf x then (if is_inf y then NaN else inf_of_sign s)
      else if is_inf y then zero_of_sign s
      else if is_zero y then (if is_zero x then NaN else inf_of_sign s)
      else fin_of_sign s (valof x / valof y))"

text \<open>\<open>x * y\<close> on doubles.\<close>

definition f_mul :: "f64 \<Rightarrow> f64 \<Rightarrow> f64" where
  "f_mul x y =
     (let s = (sign_bit x \<noteq> sign_bit y) in
      if is_nan x \<or> is_nan y then NaN
      else if is_inf x \<or> is_inf y then (if is_zero x \<or> is_zero y then NaN else inf_of_sign s)
      else fin_of_sign s (valof x * valof y))"

text \<open>\<open>x - y\<close> on doubles; an exact zero difference is the positive zero, except for
  \<open>(-0.0) - 0.0\<close>.\<close>

definition f_sub :: "f64 \<Rightarrow> f64 \<Rightarrow> f64" where
  "f_sub x y =
     (if is_nan x \<or> is_nan y then NaN
      else if is_inf x then (if is_inf y \<and> sign_bit x = sign_bit y then NaN else x)
      else if is_inf y then inf_of_sign (\<not> sign_bit y)
      else if valof x - valof y = 0
        then zero_of_sign (is_zero x \<and> is_zero y \<and> sign_bit x \<and> \<not> sign_bit y)
      else Fin (valof x - valof y))"

text \<open>\<open>abs(x)\<close>.\<close>

fun f_abs :: "f64 \<Rightarrow> f64" where
  "f_abs (Fin r) = Fin \<bar>r\<bar>"
| "f_abs NegZero = Fin 0"
| "f_abs PosInf = PosInf"
| "f_abs NegInf = PosInf"
| "f_abs NaN = NaN"

text \<open>The comparisons \<open>x < y\<close>, \<open>x > y\<close> and \<open>x != y\<close>: every ordered comparison with
  not-a-number is false, \<open>!=\<close> with not-a-number is true, and the two zeros are equal.\<close>

definition f_lt :: "f64 \<Rightarrow> f64 \<Rightarrow> bool" where
  "f_lt x y =
     (if is_nan x \<or> is_nan y then False
      else if x = NegInf then y \<noteq> NegInf
      else if y = PosInf then x \<noteq> PosInf
      else if x = PosInf \<or> y = NegInf then False
      else valof x < valof y)"

definition f_gt :: "f64 \<Rightarrow> f64 \<Rightarrow> bool" where
  "f_gt x y = f_lt y x"

definition f_ne :: "f64 \<Rightarrow> f64 \<Rightarrow> bool" where
  "f_ne x y =
     (if is_nan x \<or> is_nan y then True
      else if is_inf x \<or> is_inf y then x \<noteq> y
      else valof x \<noteq> valof y)"

section \<open>Series and frames\<close>

text \<open>
  A numeric Series with the default index \<open>0, 1, ..., n - 1\<close> is the list of its cells.
  Arithmetic on two Series aligns them on the index: the result has the union of the two
  indexes, and a label missing on one side gives not-a-number.
\<close>

type_synonym series = "f64 list"

definition reindex :: "nat \<Rightarrow> series \<Rightarrow> series" where
  "reindex n xs = take n xs @ replicate (n - length xs) NaN"

definition aligned :: "(f64 \<Rightarrow> f64 \<Rightarrow> f64) \<Rightarrow> series \<Rightarrow> series \<Rightarrow> series" where
  "aligned f xs ys =
     (let n = max (length xs) (length ys) in map2 f (reindex n xs) (reindex n ys))"

definition series_div :: "series \<Rightarrow> series \<Rightarrow> series" where
  "series_div xs ys = aligned f_div xs ys"

definition series_mul :: "series \<Rightarrow> series \<Rightarrow> series" where
  "series_mul xs ys = aligned f_mul xs ys"

definition series_sub :: "series \<Rightarrow> series \<Rightarrow> series" where
  "series_sub xs ys = aligned f_sub xs ys"

definition mul_scalar :: "series \<Rightarrow> f64 \<Rightarrow> series" where
  "mul_scalar xs c = map (\<lambda>x. f_mul x c) xs"

definition div_scalar :: "series \<Rightarrow> f64 \<Rightarrow> series" where
  "div_scalar xs c = map (\<lambda>x. f_div x c) xs"

definition sub_scalar :: "series \<Rightarrow> f64 \<Rightarrow> series" where
  "sub_scalar xs c = map (\<lambda>x. f_sub x c) xs"

text \<open>
  A column of a frame is numeric (dtype \<open>float64\<close> or \<open>int64\<close>; the only integer column
  of the program is \<open>Year\<close>, which takes part in no arithmetic of the engine, so the two
  dtypes share one constructor) or of dtype \<open>object\<close>, holding strings, with \<open>None\<close> for
  a missing value. A frame is the ordered list of its named columns.
\<close>

datatype column = Numeric series | Object "string option list"

type_synonym frame = "(string \<times> column) list"

fun col_len :: "column \<Rightarrow> nat" where
  "col_len (Numeric xs) = length xs"
| "col_len (Object xs) = length xs"

fun reindex_col :: "nat \<Rightarrow> column \<Rightarrow> column" where
  "reindex_col n (Numeric xs) = Numeric (reindex n xs)"
| "reindex_col n (Object xs) = Object (take n xs @ replicate (n - length xs) None)"

text \<open>\<open>pd.DataFrame({...})\<close> from a dict of Series: the index is the union of the indexes
  of the Series, and every Series is conformed to it.\<close>

definition DataFrame :: "(string \<times> column) list \<Rightarrow> frame" where
  "DataFrame d =
     (let n = fold max (map (col_len \<circ> snd) d) 0 in map (\<lambda>(k, c). (k, reindex_col n c)) d)"

text \<open>The number of rows; every frame of the program has its \<open>Year\<close> column first.\<close>

definition nrows :: "frame \<Rightarrow> nat" where
  "nrows df = (case df of [] \<Rightarrow> 0 | (k, c) # rest \<Rightarrow> col_len c)"

text \<open>\<open>df[k] = c\<close>: the Series is conformed to the index of the frame, and the column
  replaces the one of that name or is added last.\<close>

definition setitem :: "frame \<Rightarrow> string \<Rightarrow> column \<Rightarrow> frame" where
  "setitem df k c = AList.update k (reindex_col (nrows df) c) df"

text \<open>\<open>df[k]\<close> for a numeric column that the same function has just created (the lookup
  cannot fail there).\<close>

definition getitem :: "frame \<Rightarrow> string \<Rightarrow> series" where
  "getitem df k = (case map_of df k of Some (Numeric xs) \<Rightarrow> xs | _ \<Rightarrow> [])"

section \<open>The analyser\<close>

text \<open>
  A row of the income statement and a row of the balance sheet, with the columns of the
  two tables of the source; every column but the year is a column of doubles.
  \<open>Year_bs\<close> is the \<open>Year\<close> column of the balance sheet.
\<close>

record income_row =
  Year :: int
  Revenue :: f64
  COGS :: f64
  Gross_Profit :: f64
  Operating_Expenses :: f64
  EBIT :: f64
  Interest_Expense :: f64
  Net_Income :: f64

record balance_row =
  Year_bs :: int
  Total_Assets :: f64
  Current_Assets :: f64
  Fixed_Assets :: f64
  Total_Liabilities :: f64
  Current_Liabilities :: f64
  Long_Term_Debt :: f64
  Shareholders_Equity :: f64

text \<open>
  The two input frames are lists of rows, row \<open>i\<close> carrying index label \<open>i\<close>
  (\<open>pd.DataFrame(income_data)\<close> in the source). \<open>self.ratios\<close> is a dict in insertion
  order: assigning to a key that is present keeps its place.
\<close>

record analyzer =
  income :: "income_row list"
  balance :: "balance_row list"
  ratios :: "(string \<times> frame) list"

definition init :: "income_row list \<Rightarrow> balance_row list \<Rightarrow> analyzer" where
  "init income_statement balance_sheet =
     \<lparr>income = income_statement, balance = balance_sheet, ratios = []\<rparr>"

definition year_cell :: "int \<Rightarrow> f64" where
  "year_cell y = Fin (of_int y)"

definition calculate_profitability_ratios :: "analyzer \<Rightarrow> frame \<times> analyzer" where
  "calculate_profitability_ratios a =
     (let inc = income a; bal = balance a;
          profitability = DataFrame
            [(''Year'', Numeric (map (year_cell \<circ> Year) inc)),
             (''Gross_Margin_%'',
                Numeric (mul_scalar (series_div (map Gross_Profit inc) (map Revenue inc)) (Fin 100))),
             (''EBIT_Margin_%'',
                Numeric (mul_scalar (series_div (map EBIT inc) (map Revenue inc)) (Fin 100))),
             (''Net_Margin_%'',
                Numeric (mul_scalar (series_div (map Net_Income inc) (map Revenue inc)) (Fin 100)))];
          profitability = setitem profitability ''ROA_%''
            (Numeric (mul_scalar (series_div (map Net_Income inc) (map Total_Assets bal)) (Fin 100)));
          profitability = setitem profitability ''ROE_%''
            (Numeric (mul_scalar (series_div (map Net_Income inc) (map Shareholders_Equity bal)) (Fin 100)))
      in (profitability, a\<lparr>ratios := AList.update ''profitability'' profitability (ratios a)\<rparr>))"

definition calculate_liquidity_ratios :: "analyzer \<Rightarrow> frame \<times> analyzer" where
  "calculate_liquidity_ratios a =
     (let inc = income a; bal = balance a;
          liquidity = DataFrame
            [(''Year'', Numeric (map (year_cell \<circ> Year_bs) bal)),
             (''Current_Ratio'',
                Numeric (series_div (map Current_Assets bal) (map Current_Liabilities bal))),
             (''Working_Capital'',
                Numeric (series_sub (map Current_Assets bal) (map Current_Liabilities bal)))];
          liquidity = setitem liquidity ''WC_to_Revenue_%''
            (Numeric (mul_scalar
               (series_div (getitem liquidity ''Working_Capital'') (map Revenue inc)) (Fin 100)))
      in (liquidity, a\<lparr>ratios := AList.update ''liquidity'' liquidity (ratios a)\<rparr>))"

definition calculate_leverage_ratios :: "analyzer \<Rightarrow> frame \<times> analyzer" where
  "calculate_leverage_ratios a =
     (let inc = income a; bal = balance a;
          leverage = DataFrame
            [(''Year'', Numeric (map (year_cell \<circ> Year_bs) bal)),
             (''Debt_to_Equity'',
                Numeric (series_div (map Long_Term_Debt bal) (map Shareholders_Equity bal))),
             (''Debt_to_Assets'',
                Numeric (series_div (map Long_Term_Debt bal) (map Total_Assets bal))),
             (''Equity_Multiplier'',
                Numeric (series_div (map Total_Assets bal) (map Shareholders_Equity bal)))];
          leverage = setitem leverage ''Interest_Coverage''
            (Numeric (series_div (map EBIT inc) (map Interest_Expense inc)))
      in (leverage, a\<lparr>ratios := AList.update ''leverage'' leverage (ratios a)\<rparr>))"

text \<open>
  \<open>Series.pct_change()\<close> computes \<open>data / data.shift(1) - 1\<close>. Whether \<open>data\<close> is the
  Series itself or the Series with every missing value replaced by the last value before
  it (\<open>fill_method='pad'\<close>) is the default of the installed pandas release, which the
  repository does not fix: it is the parameter \<open>pad\<close>.
\<close>

fun ffill_from :: "f64 \<Rightarrow> series \<Rightarrow> series" where
  "ffill_from prev [] = []"
| "ffill_from prev (x # xs) =
     (if is_nan x then prev # ffill_from prev xs else x # ffill_from x xs)"

definition ffill :: "series \<Rightarrow> series" where
  "ffill xs = ffill_from NaN xs"

definition shift :: "series \<Rightarrow> series" where
  "shift xs = take (length xs) (NaN # xs)"

definition pct_change :: "bool \<Rightarrow> series \<Rightarrow> series" where
  "pct_change pad xs =
     (let data = (if pad then ffill xs else xs)
      in sub_scalar (series_div data (shift data)) (Fin 1))"

definition calculate_efficiency_ratios :: "bool \<Rightarrow> analyzer \<Rightarrow> frame \<times> analyzer" where
  "calculate_efficiency_ratios pad a =
     (let inc = income a; bal = balance a;
          efficiency = DataFrame
            [(''Year'', Numeric (map (year_cell \<circ> Year) inc)),
             (''Asset_Turnover'',
                Numeric (series_div (map Revenue inc) (map Total_Assets bal))),
             (''Fixed_Asset_Turnover'',
                Numeric (series_div (map Revenue inc) (map Fixed_Assets bal)))];
          efficiency = setitem efficiency ''Asset_Turnover_Change_%''
            (Numeric (mul_scalar (pct_change pad (getitem efficiency ''Asset_Turnover'')) (Fin 100)))
      in (efficiency, a\<lparr>ratios := AList.update ''efficiency'' efficiency (ratios a)\<rparr>))"

text \<open>The DuPont table is returned and not stored in \<open>self.ratios\<close>.\<close>

definition analyze_dupont_model :: "analyzer \<Rightarrow> frame" where
  "analyze_dupont_model a =
     (let inc = income a; bal = balance a;
          dupont = DataFrame
            [(''Year'', Numeric (map (year_cell \<circ> Year) inc)),
             (''Net_Margin_%'',
                Numeric (mul_scalar (series_div (map Net_Income inc) (map Revenue inc)) (Fin 100))),
             (''Asset_Turnover'',
                Numeric (series_div (map Revenue inc) (map Total_Assets bal))),
             (''Equity_Multiplier'',
                Numeric (series_div (map Total_Assets bal) (map Shareholders_Equity bal)))];
          dupont = setitem dupont ''ROE_Calculated_%''
            (Numeric (mul_scalar
               (series_mul
                  (series_mul (div_scalar (getitem dupont ''Net_Margin_%'') (Fin 100))
                     (getitem dupont ''Asset_Turnover''))
                  (getitem dupont ''Equity_Multiplier''))
               (Fin 100)));
          dupont = setitem dupont ''ROE_Actual_%''
            (Numeric (mul_scalar
               (series_div (map Net_Income inc) (map Shareholders_Equity bal)) (Fin 100)))
      in dupont)"

subsection \<open>Trend classification\<close>

record trends =
  improving :: "string list"
  declining :: "string list"
  stable :: "string list"

definition dropna :: "series \<Rightarrow> series" where
  "dropna xs = filter (\<lambda>x. \<not> is_nan x) xs"

text \<open>The dtype test \<open>df[col].dtype in ['float64', 'int64']\<close>.\<close>

fun numeric_dtype :: "column \<Rightarrow> bool" where
  "numeric_dtype (Numeric xs) = True"
| "numeric_dtype (Object xs) = False"

fun values_of :: "column \<Rightarrow> series" where
  "values_of (Numeric xs) = xs"
| "values_of (Object xs) = []"

text \<open>The overall trend of a Series of at least two values:
  \<open>(values.iloc[-1] - values.iloc[0]) / abs(values.iloc[0]) if values.iloc[0] != 0 else 0\<close>.\<close>

definition overall_trend :: "series \<Rightarrow> f64" where
  "overall_trend vs =
     (if f_ne (hd vs) (Fin 0) then f_div (f_sub (last vs) (hd vs)) (f_abs (hd vs)) else Fin 0)"

definition series_name :: "string \<Rightarrow> string \<Rightarrow> string" where
  "series_name category col = category @ ''.'' @ col"

definition trend_column :: "string \<Rightarrow> string \<times> column \<Rightarrow> trends \<Rightarrow> trends" where
  "trend_column category kc t =
     (case kc of (col, c) \<Rightarrow>
        if col \<noteq> ''Year'' \<and> numeric_dtype c then
          (let vs = dropna (values_of c) in
           if length vs > 1 then
             (let trend = overall_trend vs in
              if f_gt trend (Fin (1 / 10)) then
                t\<lparr>improving := improving t @ [series_name category col]\<rparr>
              else if f_lt trend (Fin (- (1 / 10))) then
                t\<lparr>declining := declining t @ [series_name category col]\<rparr>
              else
                t\<lparr>stable := stable t @ [series_name category col]\<rparr>)
           else t)
        else t)"

definition identify_ratio_trends :: "analyzer \<Rightarrow> trends" where
  "identify_ratio_trends a =
     fold (\<lambda>(category, df) t. fold (trend_column category) df t) (ratios a)
       \<lparr>improving = [], declining = [], stable = []\<rparr>"

subsection \<open>Summary and benchmark\<close>

datatype error = KeyError string | TypeError

text \<open>\<open>self.ratios[category][col]\<close>.\<close>

definition ratio_column :: "analyzer \<Rightarrow> string \<Rightarrow> string \<Rightarrow> error + column" where
  "ratio_column a category col =
     (case map_of (ratios a) category of
        None \<Rightarrow> Inl (KeyError category)
      | Some df \<Rightarrow>
          (case map_of df col of None \<Rightarrow> Inl (KeyError col) | Some c \<Rightarrow> Inr c))"

definition generate_ratio_summary :: "analyzer \<Rightarrow> error + frame" where
  "generate_ratio_summary a =
     (case ratio_column a ''profitability'' ''Gross_Margin_%'' of Inl e \<Rightarrow> Inl e | Inr gm \<Rightarrow>
     (case ratio_column a ''profitability'' ''EBIT_Margin_%'' of Inl e \<Rightarrow> Inl e | Inr em \<Rightarrow>
     (case ratio_column a ''profitability'' ''ROE_%'' of Inl e \<Rightarrow> Inl e | Inr roe \<Rightarrow>
     (case ratio_column a ''liquidity'' ''Current_Ratio'' of Inl e \<Rightarrow> Inl e | Inr cr \<Rightarrow>
     (case ratio_column a ''leverage'' ''Debt_to_Equity'' of Inl e \<Rightarrow> Inl e | Inr de \<Rightarrow>
     (case ratio_column a ''efficiency'' ''Asset_Turnover'' of Inl e \<Rightarrow> Inl e | Inr ato \<Rightarrow>
        Inr (DataFrame
          [(''Year'', Numeric (map (year_cell \<circ> Year) (income a))),
           (''Gross_Margin_%'', gm),
           (''EBIT_Margin_%'', em),
           (''ROE_%'', roe),
           (''Current_Ratio'', cr),
           (''Debt_to_Equity'', de),
           (''Asset_Turnover'', ato)])))))))"

definition default_benchmarks :: "(string \<times> f64) list" where
  "default_benchmarks =
     [(''Gross_Margin_%'', Fin 35),
      (''EBIT_Margin_%'', Fin 5),
      (''ROE_%'', Fin 12),
      (''Current_Ratio'', Fin (15 / 10)),
      (''Debt_to_Equity'', Fin 1),
      (''Asset_Turnover'', Fin (12 / 10))]"

text \<open>\<open>summary[metric] - benchmark\<close>: on an object column the subtraction of a number
  from a string raises, and a missing value stays missing.\<close>

fun minus_benchmark :: "column \<Rightarrow> f64 \<Rightarrow> error + column" where
  "minus_benchmark (Numeric xs) b = Inr (Numeric (sub_scalar xs b))"
| "minus_benchmark (Object xs) b =
     (if list_all (\<lambda>x. x = None) xs then Inr (Object xs) else Inl TypeError)"

text \<open>\<open>.apply(lambda x: 'Above' if x > 0 else 'Below')\<close>; a missing value is not
  greater than 0, and a string cannot be compared with 0.\<close>

fun performance :: "column \<Rightarrow> error + column" where
  "performance (Numeric xs) =
     Inr (Object (map (\<lambda>x. Some (if f_gt x (Fin 0) then ''Above'' else ''Below'')) xs))"
| "performance (Object xs) =
     (if list_all (\<lambda>x. x = None) xs then Inr (Object (map (\<lambda>x. Some ''Below'') xs))
      else Inl TypeError)"

fun benchmark_loop :: "frame \<Rightarrow> (string \<times> f64) list \<Rightarrow> frame \<Rightarrow> error + frame" where
  "benchmark_loop summary [] benchmark_analysis = Inr benchmark_analysis"
| "benchmark_loop summary ((metric, benchmark) # rest) benchmark_analysis =
     (case map_of summary metric of
        None \<Rightarrow> benchmark_loop summary rest benchmark_analysis
      | Some c \<Rightarrow>
          (case minus_benchmark c benchmark of
             Inl e \<Rightarrow> Inl e
           | Inr d \<Rightarrow>
               (let ba1 = setitem benchmark_analysis (metric @ ''_vs_Industry'') d in
                case map_of ba1 (metric @ ''_vs_Industry'') of
                  None \<Rightarrow> Inl (KeyError (metric @ ''_vs_Industry''))
                | Some v \<Rightarrow>
                    (case performance v of
                       Inl e \<Rightarrow> Inl e
                     | Inr p \<Rightarrow>
                         benchmark_loop summary rest
                           (setitem ba1 (metric @ ''_Performance'') p)))))"

text \<open>The benchmark mapping is a dict in insertion order, given as the list of its
  items.\<close>

definition benchmark_against_industry :: "analyzer \<Rightarrow> (string \<times> f64) list \<Rightarrow> error + frame" where
  "benchmark_against_industry a industry_benchmarks =
     (let industry_benchmarks =
            (if industry_benchmarks = [] then default_benchmarks else industry_benchmarks)
      in case generate_ratio_summary a of
           Inl e \<Rightarrow> Inl e
         | Inr summary \<Rightarrow>
             (case map_of summary ''Year'' of
                None \<Rightarrow> Inl (KeyError ''Year'')
              | Some y \<Rightarrow> benchmark_loop summary industry_benchmarks (DataFrame [(''Year'', y)])))"

subsection \<open>The run of the script\<close>

text \<open>The four \<open>calculate_\<close> calls of the script, in its order.\<close>

definition calculate_all :: "bool \<Rightarrow> analyzer \<Rightarrow> analyzer" where
  "calculate_all pad a =
     snd (calculate_efficiency_ratios pad
       (snd (calculate_leverage_ratios
         (snd (calculate_liquidity_ratios
           (snd (calculate_profitability_ratios a)))))))"

text \<open>The sequence of calls of the \<open>__main__\<close> block, on any two input tables. The
  progress messages that every operation prints and the export stub, which writes no
  file, have no part in the results and are left out.\<close>

record analysis =
  profitability_table :: frame
  liquidity_table :: frame
  leverage_table :: frame
  efficiency_table :: frame
  dupont_table :: frame
  trend_lists :: trends
  benchmark_table :: frame

definition run_analysis :: "bool \<Rightarrow> income_row list \<Rightarrow> balance_row list \<Rightarrow> error + analysis" where
  "run_analysis pad income_df balance_df =
     (let analyzer = init income_df balance_df;
          (profitability, analyzer) = calculate_profitability_ratios analyzer;
          (liquidity, analyzer) = calculate_liquidity_ratios analyzer;
          (leverage, analyzer) = calculate_leverage_ratios analyzer;
          (efficiency, analyzer) = calculate_efficiency_ratios pad analyzer;
          dupont = analyze_dupont_model analyzer;
          trends = identify_ratio_trends analyzer
      in case benchmark_against_industry analyzer [] of
           Inl e \<Rightarrow> Inl e
         | Inr benchmark \<Rightarrow>
             Inr \<lparr>profitability_table = profitability, liquidity_table = liquidity,
                  leverage_table = leverage, efficiency_table = efficiency,
                  dupont_table = dupont, trend_lists = trends,
                  benchmark_table = benchmark\<rparr>)"

subsection \<open>The sample data of the script\<close>

text \<open>The two tables of the \<open>__main__\<close> block (in millions of pounds).\<close>

definition income_data :: "income_row list" where
  "income_data =
     [\<lparr>Year = 2015, Revenue = Fin (7849 / 10), COGS = Fin (3247 / 10),
        Gross_Profit = Fin (4602 / 10), Operating_Expenses = Fin (4355 / 10), EBIT = Fin (247 / 10),
        Interest_Expense = Fin (155 / 10), Net_Income = Fin (25 / 10)\<rparr>,
      \<lparr>Year = 2016, Revenue = Fin (8266 / 10), COGS = Fin (3424 / 10),
        Gross_Profit = Fin (4842 / 10), Operating_Expenses = Fin (4652 / 10), EBIT = Fin 19,
        Interest_Expense = Fin (185 / 10), Net_Income = Fin (184 / 10)\<rparr>,
      \<lparr>Year = 2017, Revenue = Fin (8363 / 10), COGS = Fin (3532 / 10),
        Gross_Profit = Fin (4831 / 10), Operating_Expenses = Fin (4513 / 10), EBIT = Fin (318 / 10),
        Interest_Expense = Fin (197 / 10), Net_Income = Fin (147 / 10)\<rparr>,
      \<lparr>Year = 2018, Revenue = Fin (5731 / 10), COGS = Fin (3489 / 10),
        Gross_Profit = Fin (2242 / 10), Operating_Expenses = Fin (4513 / 10), EBIT = Fin (- (4 / 10)),
        Interest_Expense = Fin (198 / 10), Net_Income = Fin (22 / 10)\<rparr>]"

definition balance_data :: "balance_row list" where
  "balance_data =
     [\<lparr>Year_bs = 2015, Total_Assets = Fin 1250, Current_Assets = Fin 450,
        Fixed_Assets = Fin 800, Total_Liabilities = Fin 950, Current_Liabilities = Fin 380,
        Long_Term_Debt = Fin 570, Shareholders_Equity = Fin 300\<rparr>,
      \<lparr>Year_bs = 2016, Total_Assets = Fin 1320, Current_Assets = Fin 480,
        Fixed_Assets = Fin 840, Total_Liabilities = Fin 1020, Current_Liabilities = Fin 410,
        Long_Term_Debt = Fin 610, Shareholders_Equity = Fin 300\<rparr>,
      \<lparr>Year_bs = 2017, Total_Assets = Fin 1290, Current_Assets = Fin 460,
        Fixed_Assets = Fin 830, Total_Liabilities = Fin 1010, Current_Liabilities = Fin 395,
        Long_Term_Debt = Fin 615, Shareholders_Equity = Fin 280\<rparr>,
      \<lparr>Year_bs = 2018, Total_Assets = Fin 980, Current_Assets = Fin 320,
        Fixed_Assets = Fin 660, Total_Liabilities = Fin 820, Current_Liabilities = Fin 290,
        Long_Term_Debt = Fin 530, Shareholders_Equity = Fin 160\<rparr>]"

text \<open>The analyser after its four calculations, on the first two years of the sample
  data.\<close>

definition analyzer_2016 :: analyzer where
  "analyzer_2016 = calculate_all False (init (take 2 income_data) (take 2 balance_data))"

text \<open>The sample balance sheet with the equity of 2018 set to zero.\<close>

definition zero_equity_balance :: "balance_row list" where
  "zero_equity_balance = balance_data[3 := (balance_data ! 3)\<lparr>Shareholders_Equity := Fin 0\<rparr>]"

text \<open>A state of the analyser holding the three series of the trend examples and a
  \<open>Year\<close> column.\<close>

definition trend_examples :: analyzer where
  "trend_examples =
     \<lparr>income = [], balance = [],
      ratios = [(''examples'',
        [(''Year'', Numeric [Fin 2015, Fin 2016]),
         (''rising'', Numeric [Fin 100, Fin 130]),
         (''flat'', Numeric [Fin 100, Fin 95]),
         (''falling'', Numeric [Fin 100, Fin 85])])]\<rparr>"

subsection \<open>Notions for stating and proving the properties\<close>

text \<open>
  The stored series in the order in which \<open>identify_ratio_trends\<close> visits them, the test
  that selects a series, and the list it is appended to.
\<close>

datatype trend_label = Improving | Declining | Stable

definition entries :: "(string \<times> frame) list \<Rightarrow> (string \<times> string \<times> column) list" where
  "entries rs = concat (map (\<lambda>(category, df). map (\<lambda>(col, c). (category, col, c)) df) rs)"

definition entry_name :: "string \<times> string \<times> column \<Rightarrow> string" where
  "entry_name e = (case e of (category, col, c) \<Rightarrow> series_name category col)"

definition eligible :: "string \<Rightarrow> column \<Rightarrow> bool" where
  "eligible col c \<longleftrightarrow> col \<noteq> ''Year'' \<and> numeric_dtype c \<and> 1 < length (dropna (values_of c))"

definition label_of :: "column \<Rightarrow> trend_label" where
  "label_of c =
     (let trend = overall_trend (dropna (values_of c)) in
      if f_gt trend (Fin (1 / 10)) then Improving
      else if f_lt trend (Fin (- (1 / 10))) then Declining
      else Stable)"

definition entry_label :: "string \<times> string \<times> column \<Rightarrow> trend_label option" where
  "entry_label e =
     (case e of (category, col, c) \<Rightarrow> if eligible col c then Some (label_of c) else None)"

definition names_with :: "trend_label \<Rightarrow> (string \<times> string \<times> column) list \<Rightarrow> string list" where
  "names_with l es = map entry_name (filter (\<lambda>e. entry_label e = Some l) es)"

text \<open>
  The states of the analyser that calls of the four \<open>calculate_\<close> operations produce
  from the constructor, in any order and number, and the column names of the table each
  category then holds.
\<close>

datatype operation = Profitability | Liquidity | Leverage | Efficiency bool

fun call :: "operation \<Rightarrow> analyzer \<Rightarrow> analyzer" where
  "call Profitability a = snd (calculate_profitability_ratios a)"
| "call Liquidity a = snd (calculate_liquidity_ratios a)"
| "call Leverage a = snd (calculate_leverage_ratios a)"
| "call (Efficiency pad) a = snd (calculate_efficiency_ratios pad a)"

definition table_columns :: "string \<Rightarrow> string list" where
  "table_columns category =
     (if category = ''profitability'' then
        [''Year'', ''Gross_Margin_%'', ''EBIT_Margin_%'', ''Net_Margin_%'', ''ROA_%'', ''ROE_%'']
      else if category = ''liquidity'' then
        [''Year'', ''Current_Ratio'', ''Working_Capital'', ''WC_to_Revenue_%'']
      else if category = ''leverage'' then
        [''Year'', ''Debt_to_Equity'', ''Debt_to_Assets'', ''Equity_Multiplier'', ''Interest_Coverage'']
      else
        [''Year'', ''Asset_Turnover'', ''Fixed_Asset_Turnover'', ''Asset_Turnover_Change_%''])"

definition categories :: "string list" where
  "categories = [''profitability'', ''liquidity'', ''leverage'', ''efficiency'']"

definition well_stored :: "(string \<times> frame) list \<Rightarrow> bool" where
  "well_stored rs \<longleftrightarrow>
     distinct (map fst rs) \<and>
     (\<forall>(category, df) \<in> set rs. category \<in> set categories \<and> map fst df = table_columns category)"

text \<open>Reading one cell of a numeric column: \<open>df[k].iloc[i]\<close>.\<close>

definition cell :: "frame \<Rightarrow> string \<Rightarrow> nat \<Rightarrow> f64 option" where
  "cell df k i =
     (case map_of df k of
        Some (Numeric xs) \<Rightarrow> if i < length xs then Some (xs ! i) else None
      | _ \<Rightarrow> None)"

text \<open>A cell that holds a finite number standing for the real \<open>v\<close>.\<close>

definition finite_cell :: "f64 option \<Rightarrow> real \<Rightarrow> bool" where
  "finite_cell c v = (case c of Some x \<Rightarrow> is_finite x \<and> valof x = v | None \<Rightarrow> False)"

section \<open>Auxiliary facts\<close>

subsection \<open>Series\<close>

lemma reindex_length [simp]: "length (reindex n xs) = n"
  by (simp add: reindex_def)

lemma reindex_nth: "i < n \<Longrightarrow> reindex n xs ! i = (if i < length xs then xs ! i else NaN)"
  by (simp add: reindex_def nth_append)

lemma reindex_id [simp]: "length xs = n \<Longrightarrow> reindex n xs = xs"
  by (simp add: reindex_def)

lemma aligned_length [simp]: "length (aligned f xs ys) = max (length xs) (length ys)"
  by (simp add: aligned_def Let_def)

lemma aligned_nth:
  "i < length xs \<or> i < length ys \<Longrightarrow>
   aligned f xs ys ! i =
     f (if i < length xs then xs ! i else NaN) (if i < length ys then ys ! i else NaN)"
  by (auto simp add: aligned_def Let_def reindex_nth)

lemma mul_scalar_length [simp]: "length (mul_scalar xs c) = length xs"
  by (simp add: mul_scalar_def)

lemma f_div_NaN [simp]: "f_div x NaN = NaN" "f_div NaN y = NaN"
  by (simp_all add: f_div_def)

lemma f_mul_NaN [simp]: "f_mul x NaN = NaN" "f_mul NaN y = NaN"
  by (simp_all add: f_mul_def)

lemma f_sub_NaN [simp]: "f_sub x NaN = NaN" "f_sub NaN y = NaN"
  by (simp_all add: f_sub_def)

lemma f_div_finite:
  assumes "is_finite x" and "is_finite y" and "\<not> is_zero y"
  shows "is_finite (f_div x y) \<and> valof (f_div x y) = valof x / valof y"
  using assms by (cases x; cases y) (simp_all add: f_div_def fin_of_sign_def zero_of_sign_def)

lemma f_mul_finite:
  assumes "is_finite x" and "is_finite y"
  shows "is_finite (f_mul x y) \<and> valof (f_mul x y) = valof x * valof y"
  using assms by (cases x; cases y) (simp_all add: f_mul_def fin_of_sign_def zero_of_sign_def)

lemma percent_finite:
  assumes "is_finite x" and "is_finite y" and "\<not> is_zero y"
  shows "finite_cell (Some (f_mul (f_div x y) (Fin 100))) (valof x / valof y * 100)"
  using f_div_finite[OF assms] f_mul_finite[of "f_div x y" "Fin 100"]
  by (simp add: finite_cell_def)

lemma profitability_frame:
  "fst (calculate_profitability_ratios a) =
     [(''Year'', Numeric (map (year_cell \<circ> Year) (income a))),
      (''Gross_Margin_%'',
         Numeric (mul_scalar (series_div (map Gross_Profit (income a)) (map Revenue (income a))) (Fin 100))),
      (''EBIT_Margin_%'',
         Numeric (mul_scalar (series_div (map EBIT (income a)) (map Revenue (income a))) (Fin 100))),
      (''Net_Margin_%'',
         Numeric (mul_scalar (series_div (map Net_Income (income a)) (map Revenue (income a))) (Fin 100))),
      (''ROA_%'',
         Numeric (reindex (length (income a))
           (mul_scalar (series_div (map Net_Income (income a)) (map Total_Assets (balance a))) (Fin 100)))),
      (''ROE_%'',
         Numeric (reindex (length (income a))
           (mul_scalar (series_div (map Net_Income (income a)) (map Shareholders_Equity (balance a))) (Fin 100))))]"
  by (simp add: calculate_profitability_ratios_def Let_def DataFrame_def setitem_def nrows_def
      series_div_def)

lemma profitability_cells:
  assumes "i < length (income a)"
  shows "cell (fst (calculate_profitability_ratios a)) ''Year'' i = Some (year_cell (Year (income a ! i)))"
    and "cell (fst (calculate_profitability_ratios a)) ''Gross_Margin_%'' i =
           Some (f_mul (f_div (Gross_Profit (income a ! i)) (Revenue (income a ! i))) (Fin 100))"
    and "cell (fst (calculate_profitability_ratios a)) ''EBIT_Margin_%'' i =
           Some (f_mul (f_div (EBIT (income a ! i)) (Revenue (income a ! i))) (Fin 100))"
    and "cell (fst (calculate_profitability_ratios a)) ''Net_Margin_%'' i =
           Some (f_mul (f_div (Net_Income (income a ! i)) (Revenue (income a ! i))) (Fin 100))"
    and "cell (fst (calculate_profitability_ratios a)) ''ROA_%'' i =
           Some (if i < length (balance a)
                 then f_mul (f_div (Net_Income (income a ! i)) (Total_Assets (balance a ! i))) (Fin 100)
                 else NaN)"
    and "cell (fst (calculate_profitability_ratios a)) ''ROE_%'' i =
           Some (if i < length (balance a)
                 then f_mul (f_div (Net_Income (income a ! i)) (Shareholders_Equity (balance a ! i))) (Fin 100)
                 else NaN)"
  using assms unfolding profitability_frame
  by (simp_all add: cell_def series_div_def mul_scalar_def aligned_nth reindex_nth less_max_iff_disj)

section \<open>Profitability ratios\<close>



subsection \<open>Arithmetic on finite numbers\<close>

lemma f_div_fin:
  "is_finite x \<Longrightarrow> is_finite y \<Longrightarrow> \<not> is_zero y \<Longrightarrow>
   f_div x y = fin_of_sign (sign_bit x \<noteq> sign_bit y) (valof x / valof y)"
  by (cases x; cases y) (simp_all add: f_div_def)

lemma f_mul_fin:
  "is_finite x \<Longrightarrow> is_finite y \<Longrightarrow>
   f_mul x y = fin_of_sign (sign_bit x \<noteq> sign_bit y) (valof x * valof y)"
  by (cases x; cases y) (simp_all add: f_mul_def)

lemma fin_of_sign_simps [simp]:
  "is_finite (fin_of_sign s r)"
  "valof (fin_of_sign s r) = r"
  "is_zero (fin_of_sign s r) = (r = 0)"
  "sign_bit (fin_of_sign s r) = (if r = 0 then s else r < 0)"
  by (simp_all add: fin_of_sign_def zero_of_sign_def)

lemma fin_of_sign_eq_iff:
  "fin_of_sign s r = fin_of_sign s' r' \<longleftrightarrow> r = r' \<and> (r = 0 \<longrightarrow> s = s')"
  by (auto simp add: fin_of_sign_def zero_of_sign_def)

lemma sign_bit_nonzero:
  "is_finite x \<Longrightarrow> \<not> is_zero x \<Longrightarrow> sign_bit x = (valof x < 0)"
  by (cases x) simp_all

lemma valof_nonzero: "is_finite x \<Longrightarrow> \<not> is_zero x \<Longrightarrow> valof x \<noteq> 0"
  by (cases x) simp_all

lemma valof_zero: "is_zero x \<Longrightarrow> valof x = 0"
  by (cases x) simp_all

lemma dupont_identity:
  assumes "is_finite ni" and "is_finite rv" and "is_finite ta" and "is_finite se"
    and "\<not> is_zero rv" and "\<not> is_zero ta" and "\<not> is_zero se"
  shows "f_mul (f_mul (f_mul (f_div (f_mul (f_div ni rv) (Fin 100)) (Fin 100)) (f_div rv ta)) (f_div ta se)) (Fin 100)
       = f_mul (f_div ni se) (Fin 100)"
proof -
  have nz: "valof rv \<noteq> 0" "valof ta \<noteq> 0" "valof se \<noteq> 0"
    using assms by (simp_all add: valof_nonzero)
  have sg: "sign_bit rv = (valof rv < 0)" "sign_bit ta = (valof ta < 0)" "sign_bit se = (valof se < 0)"
    using assms by (simp_all add: sign_bit_nonzero)
  show ?thesis
    using assms nz
    apply (simp add: f_div_fin f_mul_fin fin_of_sign_eq_iff)
    apply (simp add: sg divide_less_0_iff)
    apply (auto simp add: not_less)
    done
qed

section \<open>DuPont decomposition\<close>

lemma div_scalar_length [simp]: "length (div_scalar xs c) = length xs"
  by (simp add: div_scalar_def)

lemma sub_scalar_length [simp]: "length (sub_scalar xs c) = length xs"
  by (simp add: sub_scalar_def)

lemma dupont_cells:
  assumes "i < length (income a)" and "i < length (balance a)"
  shows "cell (analyze_dupont_model a) ''Net_Margin_%'' i =
           Some (f_mul (f_div (Net_Income (income a ! i)) (Revenue (income a ! i))) (Fin 100))"
    and "cell (analyze_dupont_model a) ''Asset_Turnover'' i =
           Some (f_div (Revenue (income a ! i)) (Total_Assets (balance a ! i)))"
    and "cell (analyze_dupont_model a) ''Equity_Multiplier'' i =
           Some (f_div (Total_Assets (balance a ! i)) (Shareholders_Equity (balance a ! i)))"
    and "cell (analyze_dupont_model a) ''ROE_Calculated_%'' i =
           Some (f_mul
             (f_mul
               (f_mul
                 (f_div (f_mul (f_div (Net_Income (income a ! i)) (Revenue (income a ! i))) (Fin 100))
                    (Fin 100))
                 (f_div (Revenue (income a ! i)) (Total_Assets (balance a ! i))))
               (f_div (Total_Assets (balance a ! i)) (Shareholders_Equity (balance a ! i))))
             (Fin 100))"
    and "cell (analyze_dupont_model a) ''ROE_Actual_%'' i =
           Some (f_mul (f_div (Net_Income (income a ! i)) (Shareholders_Equity (balance a ! i))) (Fin 100))"
  using assms
  by (simp_all add: analyze_dupont_model_def Let_def DataFrame_def setitem_def nrows_def
      getitem_def cell_def series_div_def series_mul_def mul_scalar_def div_scalar_def
      aligned_nth reindex_nth less_max_iff_disj)



section \<open>The other ratio tables\<close>

lemma ffill_from_length [simp]: "length (ffill_from p xs) = length xs"
  by (induction xs arbitrary: p) simp_all

lemma ffill_length [simp]: "length (ffill xs) = length xs"
  by (simp add: ffill_def)

lemma shift_length [simp]: "length (shift xs) = length xs"
  by (simp add: shift_def)

lemma pct_change_length [simp]: "length (pct_change pad xs) = length xs"
  by (simp add: pct_change_def Let_def series_div_def)

lemma liquidity_frame:
  "fst (calculate_liquidity_ratios a) =
     [(''Year'', Numeric (map (year_cell \<circ> Year_bs) (balance a))),
      (''Current_Ratio'',
         Numeric (series_div (map Current_Assets (balance a)) (map Current_Liabilities (balance a)))),
      (''Working_Capital'',
         Numeric (series_sub (map Current_Assets (balance a)) (map Current_Liabilities (balance a)))),
      (''WC_to_Revenue_%'',
         Numeric (reindex (length (balance a))
           (mul_scalar
              (series_div
                 (series_sub (map Current_Assets (balance a)) (map Current_Liabilities (balance a)))
                 (map Revenue (income a)))
              (Fin 100))))]"
  by (simp add: calculate_liquidity_ratios_def Let_def DataFrame_def setitem_def nrows_def
      getitem_def series_div_def series_sub_def)

lemma leverage_frame:
  "fst (calculate_leverage_ratios a) =
     [(''Year'', Numeric (map (year_cell \<circ> Year_bs) (balance a))),
      (''Debt_to_Equity'',
         Numeric (series_div (map Long_Term_Debt (balance a)) (map Shareholders_Equity (balance a)))),
      (''Debt_to_Assets'',
         Numeric (series_div (map Long_Term_Debt (balance a)) (map Total_Assets (balance a)))),
      (''Equity_Multiplier'',
         Numeric (series_div (map Total_Assets (balance a)) (map Shareholders_Equity (balance a)))),
      (''Interest_Coverage'',
         Numeric (reindex (length (balance a))
           (series_div (map EBIT (income a)) (map Interest_Expense (income a)))))]"
  by (simp add: calculate_leverage_ratios_def Let_def DataFrame_def setitem_def nrows_def
      series_div_def)

lemma efficiency_frame:
  "fst (calculate_efficiency_ratios pad a) =
     [(''Year'',
         Numeric (reindex (max (length (income a)) (length (balance a)))
           (map (year_cell \<circ> Year) (income a)))),
      (''Asset_Turnover'',
         Numeric (series_div (map Revenue (income a)) (map Total_Assets (balance a)))),
      (''Fixed_Asset_Turnover'',
         Numeric (series_div (map Revenue (income a)) (map Fixed_Assets (balance a)))),
      (''Asset_Turnover_Change_%'',
         Numeric (mul_scalar
           (pct_change pad (series_div (map Revenue (income a)) (map Total_Assets (balance a))))
           (Fin 100)))]"
  by (simp add: calculate_efficiency_ratios_def Let_def DataFrame_def setitem_def nrows_def
      getitem_def series_div_def)

section \<open>Benchmark comparison\<close>

lemma col_len_reindex_col [simp]: "col_len (reindex_col n c) = n"
  by (cases c) simp_all

lemma reindex_col_id [simp]: "col_len c = n \<Longrightarrow> reindex_col n c = c"
  by (cases c) simp_all

lemma nrows_setitem [simp]: "nrows (setitem df k c) = nrows df"
  by (cases df) (auto simp add: setitem_def nrows_def)

lemma map_of_setitem:
  "map_of (setitem df k c) k' = (if k' = k then Some (reindex_col (nrows df) c) else map_of df k')"
  by (simp add: setitem_def update_conv')

lemma vs_Industry_neq_Performance: "m @ ''_vs_Industry'' \<noteq> m' @ ''_Performance''"
proof
  assume "m @ ''_vs_Industry'' = m' @ ''_Performance''"
  then have "last (m @ ''_vs_Industry'') = last (m' @ ''_Performance'')"
    by simp
  then show False
    by simp
qed

lemma DataFrame_col_len:
  "(k, c) \<in> set (DataFrame d) \<Longrightarrow> col_len c = fold max (map (col_len \<circ> snd) d) 0"
  by (auto simp add: DataFrame_def Let_def)

lemma benchmark_loop_frame:
  assumes "\<And>k c. map_of summary k = Some c \<Longrightarrow> numeric_dtype c"
  shows "\<exists>t. benchmark_loop summary bm ba = Inr t \<and> nrows t = nrows ba \<and>
           (\<forall>k. (\<forall>m \<in> fst ` set bm. k \<noteq> m @ ''_vs_Industry'' \<and> k \<noteq> m @ ''_Performance'') \<longrightarrow>
                map_of t k = map_of ba k)"
proof (induction bm arbitrary: ba)
  case Nil
  show ?case by simp
next
  case (Cons mb bm)
  obtain m b where mb: "mb = (m, b)" by (cases mb)
  show ?case
  proof (cases "map_of summary m")
    case None
    with Cons[of ba] mb show ?thesis by auto
  next
    case (Some c)
    from assms[OF Some] obtain xs where c: "c = Numeric xs"
      by (cases c) simp_all
    let ?ba2 = "setitem (setitem ba (m @ ''_vs_Industry'') (Numeric (sub_scalar xs b)))
        (m @ ''_Performance'')
        (Object (map (\<lambda>x. Some (if f_gt x (Fin 0) then ''Above'' else ''Below''))
           (reindex (nrows ba) (sub_scalar xs b))))"
    have step: "benchmark_loop summary (mb # bm) ba = benchmark_loop summary bm ?ba2"
      by (simp add: mb Some c Let_def map_of_setitem)
    from Cons[of ?ba2] obtain t where t: "benchmark_loop summary bm ?ba2 = Inr t"
      "nrows t = nrows ?ba2"
      "\<forall>k. (\<forall>m \<in> fst ` set bm. k \<noteq> m @ ''_vs_Industry'' \<and> k \<noteq> m @ ''_Performance'') \<longrightarrow>
                map_of t k = map_of ?ba2 k"
      by blast
    show ?thesis
      using t unfolding step by (auto simp add: mb map_of_setitem)
  qed
qed

lemma benchmark_loop_columns:
  assumes "\<And>k c. map_of summary k = Some c \<Longrightarrow> numeric_dtype c"
    and "distinct (map fst bm)"
    and "(m, b) \<in> set bm"
    and "map_of summary m = Some (Numeric xs)"
  shows "\<exists>t. benchmark_loop summary bm ba = Inr t \<and>
           map_of t (m @ ''_vs_Industry'') =
             Some (Numeric (reindex (nrows ba) (sub_scalar xs b))) \<and>
           map_of t (m @ ''_Performance'') =
             Some (Object (map (\<lambda>x. Some (if f_gt x (Fin 0) then ''Above'' else ''Below''))
               (reindex (nrows ba) (sub_scalar xs b))))"
  using assms(2,3)
proof (induction bm arbitrary: ba)
  case Nil
  then show ?case by simp
next
  case (Cons mb bm)
  obtain m' b' where mb: "mb = (m', b')" by (cases mb)
  show ?case
  proof (cases "map_of summary m'")
    case None
    then have "m' \<noteq> m" using assms(4) by auto
    with Cons.prems mb have "(m, b) \<in> set bm" "distinct (map fst bm)" by auto
    from Cons.IH[OF this(2,1), of ba] show ?thesis
      by (simp add: mb None)
  next
    case (Some c)
    from assms(1)[OF Some] obtain ys where c: "c = Numeric ys"
      by (cases c) simp_all
    let ?ba2 = "setitem (setitem ba (m' @ ''_vs_Industry'') (Numeric (sub_scalar ys b')))
        (m' @ ''_Performance'')
        (Object (map (\<lambda>x. Some (if f_gt x (Fin 0) then ''Above'' else ''Below''))
           (reindex (nrows ba) (sub_scalar ys b'))))"
    have step: "benchmark_loop summary (mb # bm) ba = benchmark_loop summary bm ?ba2"
      by (simp add: mb Some c Let_def map_of_setitem)
    have rows: "nrows ?ba2 = nrows ba" by simp
    show ?thesis
    proof (cases "m' = m")
      case True
      with Cons.prems mb have b': "b' = b" and fresh: "m \<notin> fst ` set bm"
        by (auto simp add: rev_image_eqI)
      from True Some c assms(4) have ys: "ys = xs" by simp
      have "\<exists>t. benchmark_loop summary bm ?ba2 = Inr t \<and> nrows t = nrows ?ba2 \<and>
           (\<forall>k. (\<forall>m \<in> fst ` set bm. k \<noteq> m @ ''_vs_Industry'' \<and> k \<noteq> m @ ''_Performance'') \<longrightarrow>
                map_of t k = map_of ?ba2 k)"
        by (rule benchmark_loop_frame) (fact assms(1))
      then obtain t where t: "benchmark_loop summary bm ?ba2 = Inr t"
        "\<forall>k. (\<forall>m \<in> fst ` set bm. k \<noteq> m @ ''_vs_Industry'' \<and> k \<noteq> m @ ''_Performance'') \<longrightarrow>
                map_of t k = map_of ?ba2 k"
        by blast
      have k1: "\<forall>n \<in> fst ` set bm. m @ ''_vs_Industry'' \<noteq> n @ ''_vs_Industry'' \<and>
          m @ ''_vs_Industry'' \<noteq> n @ ''_Performance''"
        using fresh by (auto simp add: vs_Industry_neq_Performance)
      have k2: "\<forall>n \<in> fst ` set bm. m @ ''_Performance'' \<noteq> n @ ''_vs_Industry'' \<and>
          m @ ''_Performance'' \<noteq> n @ ''_Performance''"
        using fresh vs_Industry_neq_Performance[of _ m] by auto
      from t(2) k1 have "map_of t (m @ ''_vs_Industry'') = map_of ?ba2 (m @ ''_vs_Industry'')"
        by blast
      moreover from t(2) k2 have "map_of t (m @ ''_Performance'') = map_of ?ba2 (m @ ''_Performance'')"
        by blast
      ultimately show ?thesis
        unfolding step using t(1) True b' ys
        by (simp add: map_of_setitem vs_Industry_neq_Performance)
    next
      case False
      with Cons.prems mb have "(m, b) \<in> set bm" "distinct (map fst bm)" by auto
      from Cons.IH[OF this(2,1), of ?ba2] show ?thesis
        unfolding step rows .
    qed
  qed
qed

lemma map_of_DataFrame:
  "map_of (DataFrame d) k =
     map_option (reindex_col (fold max (map (col_len \<circ> snd) d) 0)) (map_of d k)"
  by (simp add: DataFrame_def Let_def map_of_map)

lemma summary_shape:
  assumes "generate_ratio_summary a = Inr summary"
  shows "summary = DataFrame
          [(''Year'', Numeric (map (year_cell \<circ> Year) (income a))),
           (''Gross_Margin_%'', projr (ratio_column a ''profitability'' ''Gross_Margin_%'')),
           (''EBIT_Margin_%'', projr (ratio_column a ''profitability'' ''EBIT_Margin_%'')),
           (''ROE_%'', projr (ratio_column a ''profitability'' ''ROE_%'')),
           (''Current_Ratio'', projr (ratio_column a ''liquidity'' ''Current_Ratio'')),
           (''Debt_to_Equity'', projr (ratio_column a ''leverage'' ''Debt_to_Equity'')),
           (''Asset_Turnover'', projr (ratio_column a ''efficiency'' ''Asset_Turnover''))]"
  using assms unfolding generate_ratio_summary_def
  apply (cases "ratio_column a ''profitability'' ''Gross_Margin_%''"; simp)
  apply (cases "ratio_column a ''profitability'' ''EBIT_Margin_%''"; simp)
  apply (cases "ratio_column a ''profitability'' ''ROE_%''"; simp)
  apply (cases "ratio_column a ''liquidity'' ''Current_Ratio''"; simp)
  apply (cases "ratio_column a ''leverage'' ''Debt_to_Equity''"; simp)
  apply (cases "ratio_column a ''efficiency'' ''Asset_Turnover''"; simp)
  done

lemma summary_col_len:
  assumes "generate_ratio_summary a = Inr summary"
    and "map_of summary k = Some c" and "map_of summary k' = Some c'"
  shows "col_len c = col_len c'"
proof -
  obtain d where d: "summary = DataFrame d"
    using summary_shape[OF assms(1)] by (rule that)
  from assms(2,3) show ?thesis
    unfolding d map_of_DataFrame by (cases "map_of d k"; cases "map_of d k'") auto
qed

lemma map_of_DataFrame_Some:
  "map_of d k = Some c \<Longrightarrow> \<exists>c'. map_of (DataFrame d) k = Some c'"
  by (simp add: map_of_DataFrame)

lemma summary_Year:
  assumes "generate_ratio_summary a = Inr summary"
  shows "\<exists>y. map_of summary ''Year'' = Some y"
  apply (subst summary_shape[OF assms])
  apply (rule map_of_DataFrame_Some)
  apply (simp only: map_of.simps fst_conv snd_conv fun_upd_same)
  done

lemma benchmark_against_industry_columns:
  assumes "generate_ratio_summary a = Inr summary"
    and "\<forall>c \<in> snd ` set summary. numeric_dtype c"
    and "industry_benchmarks \<noteq> []"
    and "distinct (map fst industry_benchmarks)"
    and "(metric, benchmark) \<in> set industry_benchmarks"
    and "map_of summary metric = Some (Numeric xs)"
  shows "\<exists>t. benchmark_against_industry a industry_benchmarks = Inr t \<and>
           map_of t (metric @ ''_vs_Industry'') = Some (Numeric (map (\<lambda>x. f_sub x benchmark) xs)) \<and>
           map_of t (metric @ ''_Performance'') =
             Some (Object (map (\<lambda>x. Some (if f_gt (f_sub x benchmark) (Fin 0) then ''Above'' else ''Below'')) xs))"
proof -
  from summary_Year[OF assms(1)] obtain y where y: "map_of summary ''Year'' = Some y"
    by blast
  have len: "col_len y = length xs"
    using summary_col_len[OF assms(1) y assms(6)] by simp
  have num: "\<And>k c. map_of summary k = Some c \<Longrightarrow> numeric_dtype c"
    using assms(2) by (force dest: map_of_SomeD)
  have rows: "nrows (DataFrame [(''Year'', y)]) = length xs"
    using len by (simp add: DataFrame_def nrows_def)
  have "\<exists>t. benchmark_loop summary industry_benchmarks (DataFrame [(''Year'', y)]) = Inr t \<and>
           map_of t (metric @ ''_vs_Industry'') =
             Some (Numeric (reindex (nrows (DataFrame [(''Year'', y)])) (sub_scalar xs benchmark))) \<and>
           map_of t (metric @ ''_Performance'') =
             Some (Object (map (\<lambda>x. Some (if f_gt x (Fin 0) then ''Above'' else ''Below''))
               (reindex (nrows (DataFrame [(''Year'', y)])) (sub_scalar xs benchmark))))"
    using num assms(4,5,6) by (rule benchmark_loop_columns)
  then show ?thesis
    using assms(1,3) y
    by (simp add: benchmark_against_industry_def rows sub_scalar_def comp_def)
qed

lemma Year_untouched: "''Year'' \<noteq> m @ ''_vs_Industry'' \<and> ''Year'' \<noteq> m @ ''_Performance''"
proof -
  have "last ''Year'' \<noteq> last (m @ ''_vs_Industry'')" "last ''Year'' \<noteq> last (m @ ''_Performance'')"
    by simp_all
  then show ?thesis by metis
qed

lemma benchmark_against_industry_Year:
  assumes "generate_ratio_summary a = Inr summary"
    and "\<forall>c \<in> snd ` set summary. numeric_dtype c"
  shows "\<exists>t. benchmark_against_industry a industry_benchmarks = Inr t \<and>
           map_of t ''Year'' = map_of summary ''Year''"
proof -
  let ?bm = "if industry_benchmarks = [] then default_benchmarks else industry_benchmarks"
  from summary_Year[OF assms(1)] obtain y where y: "map_of summary ''Year'' = Some y"
    by blast
  have num: "\<And>k c. map_of summary k = Some c \<Longrightarrow> numeric_dtype c"
    using assms(2) by (force dest: map_of_SomeD)
  have "\<exists>t. benchmark_loop summary ?bm (DataFrame [(''Year'', y)]) = Inr t \<and>
      nrows t = nrows (DataFrame [(''Year'', y)]) \<and>
      (\<forall>k. (\<forall>m \<in> fst ` set ?bm. k \<noteq> m @ ''_vs_Industry'' \<and> k \<noteq> m @ ''_Performance'') \<longrightarrow>
           map_of t k = map_of (DataFrame [(''Year'', y)]) k)"
    by (rule benchmark_loop_frame) (fact num)
  then obtain t where t: "benchmark_loop summary ?bm (DataFrame [(''Year'', y)]) = Inr t"
    and same: "\<forall>k. (\<forall>m \<in> fst ` set ?bm. k \<noteq> m @ ''_vs_Industry'' \<and> k \<noteq> m @ ''_Performance'') \<longrightarrow>
           map_of t k = map_of (DataFrame [(''Year'', y)]) k"
    by blast
  from same Year_untouched have "map_of t ''Year'' = map_of (DataFrame [(''Year'', y)]) ''Year''"
    by blast
  then have "map_of t ''Year'' = Some y"
    by (simp add: DataFrame_def)
  with t y assms(1) show ?thesis
    by (simp add: benchmark_against_industry_def Let_def)
qed

text \<open>
  Claim C6. When the summary table exists and its columns are numeric, for every item
  (metric, benchmark) of a non-empty benchmark mapping whose metric is a column of the
  summary, \<open>benchmark_against_industry\<close> returns a table with the years of the summary,
  the column \<open>metric_vs_Industry\<close> holding actual - benchmark for each year, and the
  column \<open>metric_Performance\<close> holding \<open>'Above'\<close> exactly where that difference is greater
  than 0 and \<open>'Below'\<close> elsewhere (so for a difference of zero too).
\<close>

theorem benchmark_difference_and_label:
  assumes "generate_ratio_summary a = Inr summary"
    and "\<forall>c \<in> snd ` set summary. numeric_dtype c"
    and "industry_benchmarks \<noteq> []"
    and "distinct (map fst industry_benchmarks)"
    and "(metric, benchmark) \<in> set industry_benchmarks"
    and "map_of summary metric = Some (Numeric actual)"
  shows "\<exists>t. benchmark_against_industry a industry_benchmarks = Inr t \<and>
           map_of t ''Year'' = map_of summary ''Year'' \<and>
           map_of t (metric @ ''_vs_Industry'') =
             Some (Numeric (map (\<lambda>x. f_sub x benchmark) actual)) \<and>
           map_of t (metric @ ''_Performance'') =
             Some (Object (map (\<lambda>x. Some (if f_gt (f_sub x benchmark) (Fin 0) then ''Above'' else ''Below''))
               actual))"
proof -
  from benchmark_against_industry_Year[OF assms(1,2), of industry_benchmarks]
  obtain t where t: "benchmark_against_industry a industry_benchmarks = Inr t"
    and year: "map_of t ''Year'' = map_of summary ''Year''"
    by blast
  from benchmark_against_industry_columns[OF assms] t year show ?thesis
    by simp
qed


theorem benchmark_difference_and_label_witness:
  "generate_ratio_summary analyzer_2016 =
     Inr [(''Year'', Numeric [Fin 2015, Fin 2016]),
          (''Gross_Margin_%'', Numeric [Fin (460200 / 7849), Fin (242100 / 4133)]),
          (''EBIT_Margin_%'', Numeric [Fin (24700 / 7849), Fin (9500 / 4133)]),
          (''ROE_%'', Numeric [Fin (5 / 6), Fin (92 / 15)]),
          (''Current_Ratio'', Numeric [Fin (45 / 38), Fin (48 / 41)]),
          (''Debt_to_Equity'', Numeric [Fin (19 / 10), Fin (61 / 30)]),
          (''Asset_Turnover'', Numeric [Fin (7849 / 12500), Fin (4133 / 6600)])] \<and>
   (\<exists>t. benchmark_against_industry analyzer_2016
          [(''ROE_%'', Fin (5 / 6)), (''Current_Ratio'', Fin (3 / 2))] = Inr t \<and>
        map_of t ''Year'' = Some (Numeric [Fin 2015, Fin 2016]) \<and>
        map_of t ''ROE_%_vs_Industry'' = Some (Numeric [Fin 0, Fin (53 / 10)]) \<and>
        map_of t ''ROE_%_Performance'' = Some (Object [Some ''Below'', Some ''Above'']))"
proof -
  let ?S = "[(''Year'', Numeric [Fin 2015, Fin 2016]),
          (''Gross_Margin_%'', Numeric [Fin (460200 / 7849), Fin (242100 / 4133)]),
          (''EBIT_Margin_%'', Numeric [Fin (24700 / 7849), Fin (9500 / 4133)]),
          (''ROE_%'', Numeric [Fin (5 / 6), Fin (92 / 15)]),
          (''Current_Ratio'', Numeric [Fin (45 / 38), Fin (48 / 41)]),
          (''Debt_to_Equity'', Numeric [Fin (19 / 10), Fin (61 / 30)]),
          (''Asset_Turnover'', Numeric [Fin (7849 / 12500), Fin (4133 / 6600)])]"
  let ?bm = "[(''ROE_%'', Fin (5 / 6)), (''Current_Ratio'', Fin (3 / 2))]"
  have s: "generate_ratio_summary analyzer_2016 = Inr ?S"
    by code_simp
  have n: "\<forall>c \<in> snd ` set ?S. numeric_dtype c"
    by simp
  have b: "?bm \<noteq> []" "distinct (map fst ?bm)" "(''ROE_%'', Fin (5 / 6)) \<in> set ?bm"
    by simp_all
  have l: "map_of ?S ''ROE_%'' = Some (Numeric [Fin (5 / 6), Fin (92 / 15)])"
    by simp
  from benchmark_difference_and_label[OF s n b l] s show ?thesis
    by (simp add: f_sub_def f_gt_def f_lt_def zero_of_sign_def)
qed

lemma summary_keys:
  assumes "generate_ratio_summary a = Inr summary"
    and "k \<in> fst ` set default_benchmarks"
  shows "\<exists>c. map_of summary k = Some c"
proof -
  have "k \<in> fst ` set
          [(''Year'', Numeric (map (year_cell \<circ> Year) (income a))),
           (''Gross_Margin_%'', projr (ratio_column a ''profitability'' ''Gross_Margin_%'')),
           (''EBIT_Margin_%'', projr (ratio_column a ''profitability'' ''EBIT_Margin_%'')),
           (''ROE_%'', projr (ratio_column a ''profitability'' ''ROE_%'')),
           (''Current_Ratio'', projr (ratio_column a ''liquidity'' ''Current_Ratio'')),
           (''Debt_to_Equity'', projr (ratio_column a ''leverage'' ''Debt_to_Equity'')),
           (''Asset_Turnover'', projr (ratio_column a ''efficiency'' ''Asset_Turnover''))]"
    using assms(2) by (auto simp add: default_benchmarks_def)
  then obtain c where "map_of
          [(''Year'', Numeric (map (year_cell \<circ> Year) (income a))),
           (''Gross_Margin_%'', projr (ratio_column a ''profitability'' ''Gross_Margin_%'')),
           (''EBIT_Margin_%'', projr (ratio_column a ''profitability'' ''EBIT_Margin_%'')),
           (''ROE_%'', projr (ratio_column a ''profitability'' ''ROE_%'')),
           (''Current_Ratio'', projr (ratio_column a ''liquidity'' ''Current_Ratio'')),
           (''Debt_to_Equity'', projr (ratio_column a ''leverage'' ''Debt_to_Equity'')),
           (''Asset_Turnover'', projr (ratio_column a ''efficiency'' ''Asset_Turnover''))] k = Some c"
    by (meson map_of_eq_None_iff not_None_eq)
  then show ?thesis
    by (subst summary_shape[OF assms(1)]) (rule map_of_DataFrame_Some)
qed

text \<open>
  Claim C9. Called with the empty mapping, \<open>benchmark_against_industry\<close> does what it
  does with the built-in UK retail benchmarks (Gross_Margin_% 35.0, EBIT_Margin_% 5.0,
  ROE_% 12.0, Current_Ratio 1.5, Debt_to_Equity 1.0, Asset_Turnover 1.2): when the summary
  table exists, with numeric columns, the result is a table that has the difference and
  the label column of each of the six metrics.
\<close>

theorem empty_benchmarks_use_defaults:
  "benchmark_against_industry a [] =
     benchmark_against_industry a
       [(''Gross_Margin_%'', Fin 35), (''EBIT_Margin_%'', Fin 5), (''ROE_%'', Fin 12),
        (''Current_Ratio'', Fin (15 / 10)), (''Debt_to_Equity'', Fin 1),
        (''Asset_Turnover'', Fin (12 / 10))] \<and>
   (\<forall>summary.
      generate_ratio_summary a = Inr summary \<and> (\<forall>c \<in> snd ` set summary. numeric_dtype c) \<longrightarrow>
      (\<exists>t. benchmark_against_industry a [] = Inr t \<and>
         (\<forall>(metric, benchmark) \<in> set default_benchmarks.
            \<exists>actual.
              map_of summary metric = Some (Numeric actual) \<and>
              map_of t (metric @ ''_vs_Industry'') =
                Some (Numeric (map (\<lambda>x. f_sub x benchmark) actual)) \<and>
              map_of t (metric @ ''_Performance'') =
                Some (Object (map (\<lambda>x. Some (if f_gt (f_sub x benchmark) (Fin 0)
                                               then ''Above'' else ''Below'')) actual)))))"
proof (intro conjI allI impI)
  show "benchmark_against_industry a [] =
     benchmark_against_industry a
       [(''Gross_Margin_%'', Fin 35), (''EBIT_Margin_%'', Fin 5), (''ROE_%'', Fin 12),
        (''Current_Ratio'', Fin (15 / 10)), (''Debt_to_Equity'', Fin 1),
        (''Asset_Turnover'', Fin (12 / 10))]"
    by (simp add: benchmark_against_industry_def default_benchmarks_def)
next
  fix summary
  assume "generate_ratio_summary a = Inr summary \<and> (\<forall>c \<in> snd ` set summary. numeric_dtype c)"
  then have s: "generate_ratio_summary a = Inr summary"
    and n: "\<forall>c \<in> snd ` set summary. numeric_dtype c"
    by simp_all
  have same: "benchmark_against_industry a [] = benchmark_against_industry a default_benchmarks"
    by (simp add: benchmark_against_industry_def)
  have ne: "default_benchmarks \<noteq> []" and di: "distinct (map fst default_benchmarks)"
    by (simp_all add: default_benchmarks_def)
  from benchmark_against_industry_Year[OF s n, of "[]"]
  obtain t where t: "benchmark_against_industry a [] = Inr t"
    by blast
  have "\<exists>actual.
          map_of summary metric = Some (Numeric actual) \<and>
          map_of t (metric @ ''_vs_Industry'') =
            Some (Numeric (map (\<lambda>x. f_sub x benchmark) actual)) \<and>
          map_of t (metric @ ''_Performance'') =
            Some (Object (map (\<lambda>x. Some (if f_gt (f_sub x benchmark) (Fin 0)
                                           then ''Above'' else ''Below'')) actual))"
    if mb: "(metric, benchmark) \<in> set default_benchmarks" for metric benchmark
  proof -
    from mb have "metric \<in> fst ` set default_benchmarks"
      by force
    from summary_keys[OF s this] obtain c where c: "map_of summary metric = Some c"
      by blast
    with n have "numeric_dtype c"
      by (force dest: map_of_SomeD)
    then obtain actual where "c = Numeric actual"
      by (cases c) simp_all
    with c have l: "map_of summary metric = Some (Numeric actual)"
      by simp
    from benchmark_against_industry_columns[OF s n ne di mb l] t same show ?thesis
      using l by auto
  qed
  with t show "\<exists>t. benchmark_against_industry a [] = Inr t \<and>
         (\<forall>(metric, benchmark) \<in> set default_benchmarks.
            \<exists>actual.
              map_of summary metric = Some (Numeric actual) \<and>
              map_of t (metric @ ''_vs_Industry'') =
                Some (Numeric (map (\<lambda>x. f_sub x benchmark) actual)) \<and>
              map_of t (metric @ ''_Performance'') =
                Some (Object (map (\<lambda>x. Some (if f_gt (f_sub x benchmark) (Fin 0)
                                               then ''Above'' else ''Below'')) actual)))"
    by blast
qed

theorem empty_benchmarks_use_defaults_witness:
  "generate_ratio_summary analyzer_2016 =
     Inr [(''Year'', Numeric [Fin 2015, Fin 2016]),
          (''Gross_Margin_%'', Numeric [Fin (460200 / 7849), Fin (242100 / 4133)]),
          (''EBIT_Margin_%'', Numeric [Fin (24700 / 7849), Fin (9500 / 4133)]),
          (''ROE_%'', Numeric [Fin (5 / 6), Fin (92 / 15)]),
          (''Current_Ratio'', Numeric [Fin (45 / 38), Fin (48 / 41)]),
          (''Debt_to_Equity'', Numeric [Fin (19 / 10), Fin (61 / 30)]),
          (''Asset_Turnover'', Numeric [Fin (7849 / 12500), Fin (4133 / 6600)])] \<and>
   (\<exists>t. benchmark_against_industry analyzer_2016 [] = Inr t \<and>
        map_of t ''ROE_%_vs_Industry'' = Some (Numeric [Fin (- (67 / 6)), Fin (- (88 / 15))]) \<and>
        map_of t ''ROE_%_Performance'' = Some (Object [Some ''Below'', Some ''Below'']))"
proof -
  let ?S = "[(''Year'', Numeric [Fin 2015, Fin 2016]),
          (''Gross_Margin_%'', Numeric [Fin (460200 / 7849), Fin (242100 / 4133)]),
          (''EBIT_Margin_%'', Numeric [Fin (24700 / 7849), Fin (9500 / 4133)]),
          (''ROE_%'', Numeric [Fin (5 / 6), Fin (92 / 15)]),
          (''Current_Ratio'', Numeric [Fin (45 / 38), Fin (48 / 41)]),
          (''Debt_to_Equity'', Numeric [Fin (19 / 10), Fin (61 / 30)]),
          (''Asset_Turnover'', Numeric [Fin (7849 / 12500), Fin (4133 / 6600)])]"
  have s: "generate_ratio_summary analyzer_2016 = Inr ?S"
    by code_simp
  have n: "\<forall>c \<in> snd ` set ?S. numeric_dtype c"
    by simp
  from empty_benchmarks_use_defaults[of analyzer_2016] s n
  obtain t where t: "benchmark_against_industry analyzer_2016 [] = Inr t"
    and every: "\<forall>(metric, benchmark) \<in> set default_benchmarks.
            \<exists>actual.
              map_of ?S metric = Some (Numeric actual) \<and>
              map_of t (metric @ ''_vs_Industry'') =
                Some (Numeric (map (\<lambda>x. f_sub x benchmark) actual)) \<and>
              map_of t (metric @ ''_Performance'') =
                Some (Object (map (\<lambda>x. Some (if f_gt (f_sub x benchmark) (Fin 0)
                                               then ''Above'' else ''Below'')) actual))"
    by blast
  have "(''ROE_%'', Fin 12) \<in> set default_benchmarks"
    by (simp add: default_benchmarks_def)
  with every have "\<exists>actual.
              map_of ?S ''ROE_%'' = Some (Numeric actual) \<and>
              map_of t (''ROE_%'' @ ''_vs_Industry'') =
                Some (Numeric (map (\<lambda>x. f_sub x (Fin 12)) actual)) \<and>
              map_of t (''ROE_%'' @ ''_Performance'') =
                Some (Object (map (\<lambda>x. Some (if f_gt (f_sub x (Fin 12)) (Fin 0)
                                               then ''Above'' else ''Below'')) actual))"
    by fast
  with s t show ?thesis
    by (auto simp add: f_sub_def f_gt_def f_lt_def zero_of_sign_def)
qed

section \<open>The state kept by the calculations\<close>

lemma calculate_state [simp]:
  "income (snd (calculate_profitability_ratios a)) = income a"
  "balance (snd (calculate_profitability_ratios a)) = balance a"
  "ratios (snd (calculate_profitability_ratios a)) =
     AList.update ''profitability'' (fst (calculate_profitability_ratios a)) (ratios a)"
  "income (snd (calculate_liquidity_ratios a)) = income a"
  "balance (snd (calculate_liquidity_ratios a)) = balance a"
  "ratios (snd (calculate_liquidity_ratios a)) =
     AList.update ''liquidity'' (fst (calculate_liquidity_ratios a)) (ratios a)"
  "income (snd (calculate_leverage_ratios a)) = income a"
  "balance (snd (calculate_leverage_ratios a)) = balance a"
  "ratios (snd (calculate_leverage_ratios a)) =
     AList.update ''leverage'' (fst (calculate_leverage_ratios a)) (ratios a)"
  "income (snd (calculate_efficiency_ratios pad a)) = income a"
  "balance (snd (calculate_efficiency_ratios pad a)) = balance a"
  "ratios (snd (calculate_efficiency_ratios pad a)) =
     AList.update ''efficiency'' (fst (calculate_efficiency_ratios pad a)) (ratios a)"
  by (simp_all add: calculate_profitability_ratios_def calculate_liquidity_ratios_def
      calculate_leverage_ratios_def calculate_efficiency_ratios_def Let_def)

lemma calculate_frames_cong:
  assumes "income a = income a'" and "balance a = balance a'"
  shows "fst (calculate_profitability_ratios a) = fst (calculate_profitability_ratios a')"
    and "fst (calculate_liquidity_ratios a) = fst (calculate_liquidity_ratios a')"
    and "fst (calculate_leverage_ratios a) = fst (calculate_leverage_ratios a')"
    and "fst (calculate_efficiency_ratios pad a) = fst (calculate_efficiency_ratios pad a')"
    and "analyze_dupont_model a = analyze_dupont_model a'"
  using assms
  by (simp_all only: profitability_frame liquidity_frame leverage_frame efficiency_frame
      analyze_dupont_model_def)

lemma calculate_all_state:
  "income (calculate_all pad a) = income a"
  "balance (calculate_all pad a) = balance a"
  by (simp_all add: calculate_all_def)

lemma calculate_all_ratios:
  "ratios (calculate_all pad (init inc bal)) =
     [(''profitability'', fst (calculate_profitability_ratios (init inc bal))),
      (''liquidity'', fst (calculate_liquidity_ratios (init inc bal))),
      (''leverage'', fst (calculate_leverage_ratios (init inc bal))),
      (''efficiency'', fst (calculate_efficiency_ratios pad (init inc bal)))]"
proof -
  let ?a0 = "init inc bal"
  let ?a1 = "snd (calculate_profitability_ratios ?a0)"
  let ?a2 = "snd (calculate_liquidity_ratios ?a1)"
  let ?a3 = "snd (calculate_leverage_ratios ?a2)"
  have l: "fst (calculate_liquidity_ratios ?a1) = fst (calculate_liquidity_ratios ?a0)"
    by (rule calculate_frames_cong) simp_all
  have v: "fst (calculate_leverage_ratios ?a2) = fst (calculate_leverage_ratios ?a0)"
    by (rule calculate_frames_cong) simp_all
  have e: "fst (calculate_efficiency_ratios pad ?a3) = fst (calculate_efficiency_ratios pad ?a0)"
    by (rule calculate_frames_cong) simp_all
  have r0: "ratios ?a0 = []"
    by (simp add: init_def)
  show ?thesis
    by (simp add: calculate_all_def l v e r0)
qed

section \<open>Trend classification\<close>

lemma trend_column_lists:
  "improving (trend_column category kc t) =
     improving t @ names_with Improving [(category, fst kc, snd kc)]"
  "declining (trend_column category kc t) =
     declining t @ names_with Declining [(category, fst kc, snd kc)]"
  "stable (trend_column category kc t) =
     stable t @ names_with Stable [(category, fst kc, snd kc)]"
  by (cases kc; simp add: trend_column_def names_with_def entry_label_def entry_name_def
      eligible_def label_of_def Let_def)+

lemma names_with_append [simp]: "names_with l (xs @ ys) = names_with l xs @ names_with l ys"
  by (simp add: names_with_def)

lemma names_with_Nil [simp]: "names_with l [] = []"
  by (simp add: names_with_def)

lemma fold_trend_column:
  "improving (fold (trend_column category) df t) =
     improving t @ names_with Improving (map (\<lambda>(col, c). (category, col, c)) df)"
  "declining (fold (trend_column category) df t) =
     declining t @ names_with Declining (map (\<lambda>(col, c). (category, col, c)) df)"
  "stable (fold (trend_column category) df t) =
     stable t @ names_with Stable (map (\<lambda>(col, c). (category, col, c)) df)"
proof (induction df arbitrary: t)
  case Nil
  {
    case 1 show ?case by simp
  next
    case 2 show ?case by simp
  next
    case 3 show ?case by simp
  }
next
  case (Cons kc df)
  have split: "map (\<lambda>(col, c). (category, col, c)) (kc # df) =
      [(category, fst kc, snd kc)] @ map (\<lambda>(col, c). (category, col, c)) df"
    by (cases kc) simp
  {
    case 1 show ?case unfolding split names_with_append
      by (simp add: Cons.IH(1) trend_column_lists(1))
  next
    case 2 show ?case unfolding split names_with_append
      by (simp add: Cons.IH(2) trend_column_lists(2))
  next
    case 3 show ?case unfolding split names_with_append
      by (simp add: Cons.IH(3) trend_column_lists(3))
  }
qed

lemma fold_categories:
  "improving (fold (\<lambda>(category, df) t. fold (trend_column category) df t) rs t) =
     improving t @ names_with Improving (entries rs)"
  "declining (fold (\<lambda>(category, df) t. fold (trend_column category) df t) rs t) =
     declining t @ names_with Declining (entries rs)"
  "stable (fold (\<lambda>(category, df) t. fold (trend_column category) df t) rs t) =
     stable t @ names_with Stable (entries rs)"
proof (induction rs arbitrary: t)
  case Nil
  {
    case 1 show ?case by (simp add: entries_def)
  next
    case 2 show ?case by (simp add: entries_def)
  next
    case 3 show ?case by (simp add: entries_def)
  }
next
  case (Cons r rs)
  obtain category df where r: "r = (category, df)" by (cases r)
  have split: "entries (r # rs) = map (\<lambda>(col, c). (category, col, c)) df @ entries rs"
    by (simp add: entries_def r)
  {
    case 1 show ?case unfolding split names_with_append
      by (simp add: r Cons.IH(1) fold_trend_column(1))
  next
    case 2 show ?case unfolding split names_with_append
      by (simp add: r Cons.IH(2) fold_trend_column(2))
  next
    case 3 show ?case unfolding split names_with_append
      by (simp add: r Cons.IH(3) fold_trend_column(3))
  }
qed

lemma identify_ratio_trends_lists:
  "improving (identify_ratio_trends a) = names_with Improving (entries (ratios a))"
  "declining (identify_ratio_trends a) = names_with Declining (entries (ratios a))"
  "stable (identify_ratio_trends a) = names_with Stable (entries (ratios a))"
  by (simp_all add: identify_ratio_trends_def fold_categories)

lemma f_ne_zero: "f_ne x (Fin 0) = (\<not> is_zero x)"
  by (cases x) (simp_all add: f_ne_def)

lemma f_sub_finite:
  assumes "is_finite x" and "is_finite y"
  shows "is_finite (f_sub x y) \<and> valof (f_sub x y) = valof x - valof y"
  using assms by (cases x; cases y) (simp_all add: f_sub_def zero_of_sign_def)

lemma f_abs_finite:
  assumes "is_finite x"
  shows "is_finite (f_abs x) \<and> valof (f_abs x) = \<bar>valof x\<bar> \<and> is_zero (f_abs x) = is_zero x"
  using assms by (cases x) simp_all

lemma f_gt_not_f_lt: "f_gt x (Fin (1 / 10)) \<Longrightarrow> \<not> f_lt x (Fin (- (1 / 10)))"
  by (cases x) (simp_all add: f_gt_def f_lt_def)

lemma entries_mem:
  "(category, df) \<in> set rs \<Longrightarrow> (col, c) \<in> set df \<Longrightarrow> (category, col, c) \<in> set (entries rs)"
  by (force simp add: entries_def)

lemma names_with_mem:
  "e \<in> set es \<Longrightarrow> entry_label e = Some l \<Longrightarrow> entry_name e \<in> set (names_with l es)"
  by (simp add: names_with_def)

lemma entry_names_concat:
  "map entry_name (entries rs) =
     concat (map (\<lambda>(category, df). map (\<lambda>(col, c). series_name category col) df) rs)"
  by (induction rs) (auto simp add: entries_def entry_name_def case_prod_beta comp_def)

lemma count_list_map_filter:
  assumes "distinct (map f es)" and "e \<in> set es"
  shows "count_list (map f (filter P es)) (f e) = (if P e then 1 else 0)"
  using assms
proof (induction es)
  case Nil
  then show ?case by simp
next
  case (Cons x es)
  show ?case
  proof (cases "x = e")
    case True
    with Cons.prems have "f e \<notin> f ` set es" by simp
    then have "f e \<notin> set (map f (filter P es))" by auto
    then have "count_list (map f (filter P es)) (f e) = 0"
      by (simp only: count_list_0_iff not_False_eq_True)
    with True show ?thesis by simp
  next
    case False
    with Cons.prems have e: "e \<in> set es" and d: "distinct (map f es)" and "f x \<notin> f ` set es"
      by auto
    then have "f x \<noteq> f e" by auto
    with Cons.IH[OF d e] show ?thesis by simp
  qed
qed



lemma set_update_subset: "set (AList.update k v al) \<subseteq> insert (k, v) (set al)"
  by (induction al) auto

lemma well_stored_update:
  assumes "well_stored rs" and "category \<in> set categories"
    and "map fst df = table_columns category"
  shows "well_stored (AList.update category df rs)"
  using assms set_update_subset[of category df rs]
  unfolding well_stored_def by (auto simp add: distinct_update)

lemma table_column_names:
  "map fst (fst (calculate_profitability_ratios a)) = table_columns ''profitability''"
  "map fst (fst (calculate_liquidity_ratios a)) = table_columns ''liquidity''"
  "map fst (fst (calculate_leverage_ratios a)) = table_columns ''leverage''"
  "map fst (fst (calculate_efficiency_ratios pad a)) = table_columns ''efficiency''"
  unfolding profitability_frame liquidity_frame leverage_frame efficiency_frame
  by (simp_all add: table_columns_def)

lemma well_stored_call: "well_stored (ratios a) \<Longrightarrow> well_stored (ratios (call op a))"
  by (cases op) (simp_all add: well_stored_update table_column_names categories_def)

lemma well_stored_calls:
  "well_stored (ratios a) \<Longrightarrow> well_stored (ratios (fold call ops a))"
  by (induction ops arbitrary: a) (simp_all add: well_stored_call)

lemma well_stored_init: "well_stored (ratios (fold call ops (init inc bal)))"
  by (rule well_stored_calls) (simp add: init_def well_stored_def)

lemma series_name_category:
  assumes "category \<in> set categories" and "category' \<in> set categories"
    and "series_name category col = series_name category' col'"
  shows "category = category'"
  using assms by (auto simp add: categories_def series_name_def)

lemma table_names_distinct:
  "category \<in> set categories \<Longrightarrow> distinct (map (series_name category) (table_columns category))"
  by (auto simp add: categories_def series_name_def table_columns_def)

lemma well_stored_names_distinct:
  "well_stored rs \<Longrightarrow>
   distinct (concat (map (\<lambda>(category, df). map (\<lambda>(col, c). series_name category col) df) rs))"
proof (induction rs)
  case Nil
  then show ?case by simp
next
  case (Cons r rs)
  obtain category df where r: "r = (category, df)" by (cases r)
  from Cons.prems have rest: "well_stored rs"
    and cat: "category \<in> set categories" and cols: "map fst df = table_columns category"
    and fresh: "category \<notin> fst ` set rs"
    and others: "\<forall>(category', df') \<in> set rs. category' \<in> set categories"
    by (auto simp add: well_stored_def r)
  have names: "map (\<lambda>(col, c). series_name category col) df =
      map (series_name category) (table_columns category)"
    unfolding cols[symmetric] by (simp add: case_prod_beta comp_def)
  have here: "distinct (map (\<lambda>(col, c). series_name category col) df)"
    unfolding names using cat by (rule table_names_distinct)
  have apart: "series_name category col \<noteq> series_name category' col'"
    if "(category', df') \<in> set rs" for category' df' col col'
  proof
    assume "series_name category col = series_name category' col'"
    moreover from that others have "category' \<in> set categories" by auto
    ultimately have "category = category'"
      using cat by (metis series_name_category)
    with that fresh show False by force
  qed
  from Cons.IH[OF rest] here apart show ?case
    by (fastforce simp add: r)
qed

lemma distinct_names_partition:
  assumes "distinct (concat (map (\<lambda>(category, df). map (\<lambda>(col, c). series_name category col) df)
             (ratios a)))"
    and "(category, df) \<in> set (ratios a)" and "(col, c) \<in> set df"
    and "t = identify_ratio_trends a"
  shows "(col \<noteq> ''Year'' \<and> numeric_dtype c \<and> 1 < length (dropna (values_of c)) \<longrightarrow>
            count_list (improving t @ declining t @ stable t) (series_name category col) = 1) \<and>
         (\<not> (col \<noteq> ''Year'' \<and> numeric_dtype c \<and> 1 < length (dropna (values_of c))) \<longrightarrow>
            series_name category col \<notin> set (improving t @ declining t @ stable t))"
proof -
  let ?e = "(category, col, c)"
  let ?es = "entries (ratios a)"
  have mem: "?e \<in> set ?es"
    using assms(2,3) by (rule entries_mem)
  have dist: "distinct (map entry_name ?es)"
    using assms(1) by (simp only: entry_names_concat)
  have name: "entry_name ?e = series_name category col"
    by (simp add: entry_name_def)
  have count: "count_list (names_with l ?es) (series_name category col) =
      (if entry_label ?e = Some l then 1 else 0)" for l
    using count_list_map_filter[OF dist mem, of "\<lambda>e. entry_label e = Some l"]
    by (simp add: names_with_def name)
  have total: "count_list (improving t @ declining t @ stable t) (series_name category col) =
      (if entry_label ?e = Some Improving then 1 else 0) +
      (if entry_label ?e = Some Declining then 1 else 0) +
      (if entry_label ?e = Some Stable then 1 else 0)"
    by (simp add: assms(4) identify_ratio_trends_lists count)
  show ?thesis
  proof (cases "eligible col c")
    case True
    then have "entry_label ?e = Some (label_of c)"
      by (simp add: entry_label_def)
    with total True show ?thesis
      by (cases "label_of c") (simp_all add: eligible_def)
  next
    case False
    then have "entry_label ?e = None"
      by (simp add: entry_label_def)
    with total have "count_list (improving t @ declining t @ stable t) (series_name category col) = 0"
      by simp
    then have "series_name category col \<notin> set (improving t @ declining t @ stable t)"
      by (simp only: count_list_0_iff not_False_eq_True)
    then show ?thesis
      using False unfolding eligible_def by blast
  qed
qed

text \<open>
  Claim C10. In every state that calls of the \<open>calculate_\<close> operations produce from the
  constructor, every stored numeric series other than \<open>Year\<close> with more than one value
  that is not missing occurs exactly once in the three lists of \<open>identify_ratio_trends\<close>
  taken together, and every other stored column (\<open>Year\<close>, dtype object, at most one value
  that is not missing) occurs in none of them.
\<close>

theorem trend_lists_partition:
  assumes "a = fold call calls (init income_statement balance_sheet)"
    and "(category, df) \<in> set (ratios a)" and "(col, c) \<in> set df"
    and "t = identify_ratio_trends a"
  shows "(col \<noteq> ''Year'' \<and> numeric_dtype c \<and> 1 < length (dropna (values_of c)) \<longrightarrow>
            count_list (improving t @ declining t @ stable t) (series_name category col) = 1) \<and>
         (\<not> (col \<noteq> ''Year'' \<and> numeric_dtype c \<and> 1 < length (dropna (values_of c))) \<longrightarrow>
            series_name category col \<notin> set (improving t @ declining t @ stable t))"
proof -
  have "well_stored (ratios a)"
    unfolding assms(1) by (rule well_stored_init)
  then have "distinct (concat (map (\<lambda>(category, df). map (\<lambda>(col, c). series_name category col) df)
      (ratios a)))"
    by (rule well_stored_names_distinct)
  then show ?thesis
    using assms(2,3,4) by (rule distinct_names_partition)
qed

theorem trend_lists_partition_witness:
  "count_list
     (improving (identify_ratio_trends analyzer_2016) @
      declining (identify_ratio_trends analyzer_2016) @
      stable (identify_ratio_trends analyzer_2016)) ''profitability.ROE_%'' = 1 \<and>
   ''efficiency.Asset_Turnover_Change_%'' \<notin> set
     (improving (identify_ratio_trends analyzer_2016) @
      declining (identify_ratio_trends analyzer_2016) @
      stable (identify_ratio_trends analyzer_2016)) \<and>
   ''profitability.Year'' \<notin> set
     (improving (identify_ratio_trends analyzer_2016) @
      declining (identify_ratio_trends analyzer_2016) @
      stable (identify_ratio_trends analyzer_2016))"
proof -
  let ?p = "fst (calculate_profitability_ratios (init (take 2 income_data) (take 2 balance_data)))"
  let ?e = "fst (calculate_efficiency_ratios False (init (take 2 income_data) (take 2 balance_data)))"
  have a: "analyzer_2016 =
      fold call [Profitability, Liquidity, Leverage, Efficiency False]
        (init (take 2 income_data) (take 2 balance_data))"
    by (simp add: analyzer_2016_def calculate_all_def)
  have p: "(''profitability'', ?p) \<in> set (ratios analyzer_2016)"
    and e: "(''efficiency'', ?e) \<in> set (ratios analyzer_2016)"
    by (simp_all add: analyzer_2016_def calculate_all_ratios)
  have roe: "(''ROE_%'', Numeric [Fin (5 / 6), Fin (92 / 15)]) \<in> set ?p"
    by code_simp
  have year: "(''Year'', Numeric [Fin 2015, Fin 2016]) \<in> set ?p"
    by code_simp
  have chg: "(''Asset_Turnover_Change_%'', Numeric [NaN, Fin (- (70450 / 259017))]) \<in> set ?e"
    by code_simp
  from trend_lists_partition[OF a p roe refl] trend_lists_partition[OF a e chg refl]
    trend_lists_partition[OF a p year refl]
  show ?thesis
    by (simp add: dropna_def series_name_def)
qed

section \<open>Efficiency ratios\<close>

lemma ffill_from_nth:
  "i < length xs \<Longrightarrow> \<not> is_nan (xs ! i) \<Longrightarrow> ffill_from p xs ! i = xs ! i"
proof (induction xs arbitrary: p i)
  case Nil
  then show ?case by simp
next
  case (Cons x xs)
  then show ?case by (cases i) auto
qed

lemma ffill_nth: "i < length xs \<Longrightarrow> \<not> is_nan (xs ! i) \<Longrightarrow> ffill xs ! i = xs ! i"
  by (simp add: ffill_def ffill_from_nth)

lemma shift_nth: "i < length xs \<Longrightarrow> shift xs ! i = (if i = 0 then NaN else xs ! (i - 1))"
  by (cases i) (simp_all add: shift_def)

lemma pct_change_nth:
  assumes "i < length xs"
  shows "pct_change pad xs ! i =
     (if i = 0 then NaN
      else if pad then f_sub (f_div (ffill xs ! i) (ffill xs ! (i - 1))) (Fin 1)
      else f_sub (f_div (xs ! i) (xs ! (i - 1))) (Fin 1))"
  using assms
  by (cases i)
    (simp_all add: pct_change_def Let_def sub_scalar_def series_div_def aligned_nth shift_nth)

lemma efficiency_cells:
  assumes "i < max (length (income a)) (length (balance a))"
  shows "cell (fst (calculate_efficiency_ratios pad a)) ''Asset_Turnover'' i =
           Some (series_div (map Revenue (income a)) (map Total_Assets (balance a)) ! i)"
    and "cell (fst (calculate_efficiency_ratios pad a)) ''Asset_Turnover_Change_%'' i =
           Some (f_mul
             (pct_change pad (series_div (map Revenue (income a)) (map Total_Assets (balance a))) ! i)
             (Fin 100))"
  using assms unfolding efficiency_frame
  by (simp_all add: cell_def series_div_def mul_scalar_def)

lemma efficiency_nrows:
  "nrows (fst (calculate_efficiency_ratios pad a)) = max (length (income a)) (length (balance a))"
  unfolding efficiency_frame by (simp add: nrows_def)



section \<open>The run of the script on any tables\<close>

lemma numeric_dtype_reindex_col [simp]: "numeric_dtype (reindex_col n c) = numeric_dtype c"
  by (cases c) simp_all

lemma DataFrame_numeric:
  "\<forall>c \<in> snd ` set d. numeric_dtype c \<Longrightarrow> \<forall>c \<in> snd ` set (DataFrame d). numeric_dtype c"
  by (auto simp add: DataFrame_def Let_def)

lemma script_ratio_columns:
  "ratio_column (calculate_all pad (init inc bal)) ''profitability'' ''Gross_Margin_%'' =
     Inr (Numeric (mul_scalar (series_div (map Gross_Profit inc) (map Revenue inc)) (Fin 100)))"
  "ratio_column (calculate_all pad (init inc bal)) ''profitability'' ''EBIT_Margin_%'' =
     Inr (Numeric (mul_scalar (series_div (map EBIT inc) (map Revenue inc)) (Fin 100)))"
  "ratio_column (calculate_all pad (init inc bal)) ''profitability'' ''ROE_%'' =
     Inr (Numeric (reindex (length inc)
       (mul_scalar (series_div (map Net_Income inc) (map Shareholders_Equity bal)) (Fin 100))))"
  "ratio_column (calculate_all pad (init inc bal)) ''liquidity'' ''Current_Ratio'' =
     Inr (Numeric (series_div (map Current_Assets bal) (map Current_Liabilities bal)))"
  "ratio_column (calculate_all pad (init inc bal)) ''leverage'' ''Debt_to_Equity'' =
     Inr (Numeric (series_div (map Long_Term_Debt bal) (map Shareholders_Equity bal)))"
  "ratio_column (calculate_all pad (init inc bal)) ''efficiency'' ''Asset_Turnover'' =
     Inr (Numeric (series_div (map Revenue inc) (map Total_Assets bal)))"
  unfolding ratio_column_def calculate_all_ratios profitability_frame liquidity_frame
    leverage_frame efficiency_frame
  by (simp_all add: init_def)

lemma script_summary:
  "generate_ratio_summary (calculate_all pad (init inc bal)) =
     Inr (DataFrame
       [(''Year'', Numeric (map (year_cell \<circ> Year) inc)),
        (''Gross_Margin_%'',
           Numeric (mul_scalar (series_div (map Gross_Profit inc) (map Revenue inc)) (Fin 100))),
        (''EBIT_Margin_%'',
           Numeric (mul_scalar (series_div (map EBIT inc) (map Revenue inc)) (Fin 100))),
        (''ROE_%'',
           Numeric (reindex (length inc)
             (mul_scalar (series_div (map Net_Income inc) (map Shareholders_Equity bal)) (Fin 100)))),
        (''Current_Ratio'',
           Numeric (series_div (map Current_Assets bal) (map Current_Liabilities bal))),
        (''Debt_to_Equity'',
           Numeric (series_div (map Long_Term_Debt bal) (map Shareholders_Equity bal))),
        (''Asset_Turnover'',
           Numeric (series_div (map Revenue inc) (map Total_Assets bal)))])"
  unfolding generate_ratio_summary_def script_ratio_columns
  by (simp add: calculate_all_state init_def)

lemma script_benchmark_returns:
  "\<exists>t. benchmark_against_industry (calculate_all pad (init inc bal)) bm = Inr t"
proof -
  let ?d = "[(''Year'', Numeric (map (year_cell \<circ> Year) inc)),
        (''Gross_Margin_%'',
           Numeric (mul_scalar (series_div (map Gross_Profit inc) (map Revenue inc)) (Fin 100))),
        (''EBIT_Margin_%'',
           Numeric (mul_scalar (series_div (map EBIT inc) (map Revenue inc)) (Fin 100))),
        (''ROE_%'',
           Numeric (reindex (length inc)
             (mul_scalar (series_div (map Net_Income inc) (map Shareholders_Equity bal)) (Fin 100)))),
        (''Current_Ratio'',
           Numeric (series_div (map Current_Assets bal) (map Current_Liabilities bal))),
        (''Debt_to_Equity'',
           Numeric (series_div (map Long_Term_Debt bal) (map Shareholders_Equity bal))),
        (''Asset_Turnover'',
           Numeric (series_div (map Revenue inc) (map Total_Assets bal)))]"
  have "\<forall>c \<in> snd ` set ?d. numeric_dtype c"
    by simp
  then have n: "\<forall>c \<in> snd ` set (DataFrame ?d). numeric_dtype c"
    by (rule DataFrame_numeric)
  from benchmark_against_industry_Year[OF script_summary n] show ?thesis
    by blast
qed

lemma run_analysis_returns: "\<exists>res. run_analysis pad inc bal = Inr res"
proof -
  obtain t where t: "benchmark_against_industry (calculate_all pad (init inc bal)) [] = Inr t"
    using script_benchmark_returns by blast
  then show ?thesis
    by (simp add: run_analysis_def Let_def case_prod_beta calculate_all_def)
qed

lemma run_analysis_tables:
  assumes "run_analysis pad inc bal = Inr res"
  shows "profitability_table res = fst (calculate_profitability_ratios (init inc bal))"
    and "liquidity_table res = fst (calculate_liquidity_ratios (init inc bal))"
    and "leverage_table res = fst (calculate_leverage_ratios (init inc bal))"
    and "efficiency_table res = fst (calculate_efficiency_ratios pad (init inc bal))"
    and "dupont_table res = analyze_dupont_model (init inc bal)"
    and "trend_lists res = identify_ratio_trends (calculate_all pad (init inc bal))"
proof -
  let ?a0 = "init inc bal"
  let ?a1 = "snd (calculate_profitability_ratios ?a0)"
  let ?a2 = "snd (calculate_liquidity_ratios ?a1)"
  let ?a3 = "snd (calculate_leverage_ratios ?a2)"
  let ?a4 = "snd (calculate_efficiency_ratios pad ?a3)"
  have l: "fst (calculate_liquidity_ratios ?a1) = fst (calculate_liquidity_ratios ?a0)"
    by (rule calculate_frames_cong) simp_all
  have v: "fst (calculate_leverage_ratios ?a2) = fst (calculate_leverage_ratios ?a0)"
    by (rule calculate_frames_cong) simp_all
  have e: "fst (calculate_efficiency_ratios pad ?a3) = fst (calculate_efficiency_ratios pad ?a0)"
    by (rule calculate_frames_cong) simp_all
  have d: "analyze_dupont_model ?a4 = analyze_dupont_model ?a0"
    by (rule calculate_frames_cong) simp_all
  have res: "res =
      \<lparr>profitability_table = fst (calculate_profitability_ratios ?a0),
       liquidity_table = fst (calculate_liquidity_ratios ?a1),
       leverage_table = fst (calculate_leverage_ratios ?a2),
       efficiency_table = fst (calculate_efficiency_ratios pad ?a3),
       dupont_table = analyze_dupont_model ?a4,
       trend_lists = identify_ratio_trends ?a4,
       benchmark_table = benchmark_table res\<rparr>"
    using assms
    by (auto simp add: run_analysis_def Let_def case_prod_beta split: sum.splits)
  show "profitability_table res = fst (calculate_profitability_ratios ?a0)"
    by (subst res) simp
  show "liquidity_table res = fst (calculate_liquidity_ratios ?a0)"
    by (subst res) (simp add: l)
  show "leverage_table res = fst (calculate_leverage_ratios ?a0)"
    by (subst res) (simp add: v)
  show "efficiency_table res = fst (calculate_efficiency_ratios pad ?a0)"
    by (subst res) (simp add: e)
  show "dupont_table res = analyze_dupont_model ?a0"
    by (subst res) (simp add: d)
  show "trend_lists res = identify_ratio_trends (calculate_all pad ?a0)"
    by (subst res) (simp add: calculate_all_def)
qed

section \<open>Zero denominators\<close>

lemma f_div_by_zero:
  "is_zero y \<Longrightarrow>
   f_div x y =
     (if is_nan x \<or> is_zero x then NaN
      else if sign_bit x = sign_bit y then PosInf else NegInf)"
  by (cases x; cases y) (simp_all add: f_div_def inf_of_sign_def)

lemma f_mul_inf_100 [simp]: "f_mul PosInf (Fin 100) = PosInf" "f_mul NegInf (Fin 100) = NegInf"
  by (simp_all add: f_mul_def inf_of_sign_def)

lemma percent_by_zero:
  "is_zero y \<Longrightarrow>
   f_mul (f_div x y) (Fin 100) =
     (if is_nan x \<or> is_zero x then NaN
      else if sign_bit x = sign_bit y then PosInf else NegInf)"
  by (simp add: f_div_by_zero)

text \<open>
  Claim C4, as stated, fails: with Shareholders_Equity = 0.0 and Net_Income = 2.2 for 2018,
  the ROE_% cell of 2018 is plus infinity, which is a number for pandas and is not
  missing.
\<close>

theorem zero_equity_roe_is_infinite:
  "Shareholders_Equity (zero_equity_balance ! 3) = Fin 0 \<and>
   Net_Income (income_data ! 3) = Fin (22 / 10) \<and>
   cell (fst (calculate_profitability_ratios (init income_data zero_equity_balance))) ''ROE_%'' 3 =
     Some PosInf \<and>
   cell (fst (calculate_profitability_ratios (init income_data zero_equity_balance))) ''ROE_%'' 3 \<noteq>
     Some NaN"
  by code_simp

text \<open>
  Claim C4, amended. A zero denominator raises no error. The division of two Series, by
  which every ratio of the engine is computed, gives in a row whose denominator is zero
  not-a-number when the numerator is zero or missing as well, and otherwise plus or minus
  infinity (plus when the sign bits of numerator and zero agree). So when
  Shareholders_Equity is zero in a row present in both tables, the ROE_% cell of the row
  is not-a-number or an infinity in this way; the other cells of the row and the ROE_%
  cells of the other rows are computed by their formulas, and the run of the script
  returns its tables.
\<close>

theorem zero_equity_cells:
  assumes "i < length (income a)" and "i < length (balance a)"
    and "r = income a ! i" and "b = balance a ! i"
    and "is_zero (Shareholders_Equity b)"
    and "df = fst (calculate_profitability_ratios a)"
  shows "(is_nan (Net_Income r) \<or> is_zero (Net_Income r) \<longrightarrow> cell df ''ROE_%'' i = Some NaN) \<and>
         (\<not> is_nan (Net_Income r) \<and> \<not> is_zero (Net_Income r) \<longrightarrow>
            cell df ''ROE_%'' i =
              Some (if sign_bit (Net_Income r) = sign_bit (Shareholders_Equity b)
                    then PosInf else NegInf)) \<and>
         cell df ''Gross_Margin_%'' i = Some (f_mul (f_div (Gross_Profit r) (Revenue r)) (Fin 100)) \<and>
         cell df ''EBIT_Margin_%'' i = Some (f_mul (f_div (EBIT r) (Revenue r)) (Fin 100)) \<and>
         cell df ''Net_Margin_%'' i = Some (f_mul (f_div (Net_Income r) (Revenue r)) (Fin 100)) \<and>
         cell df ''ROA_%'' i = Some (f_mul (f_div (Net_Income r) (Total_Assets b)) (Fin 100)) \<and>
         (\<forall>j. j < length (income a) \<and> j < length (balance a) \<longrightarrow>
            cell df ''ROE_%'' j =
              Some (f_mul (f_div (Net_Income (income a ! j)) (Shareholders_Equity (balance a ! j)))
                (Fin 100))) \<and>
         (\<exists>res. run_analysis pad (income a) (balance a) = Inr res \<and> profitability_table res = df) \<and>
         (\<forall>xs ys k. k < length xs \<and> k < length ys \<and> is_zero (ys ! k) \<longrightarrow>
            series_div xs ys ! k =
              (if is_nan (xs ! k) \<or> is_zero (xs ! k) then NaN
               else if sign_bit (xs ! k) = sign_bit (ys ! k) then PosInf else NegInf))"
proof -
  have division: "series_div xs ys ! k =
      (if is_nan (xs ! k) \<or> is_zero (xs ! k) then NaN
       else if sign_bit (xs ! k) = sign_bit (ys ! k) then PosInf else NegInf)"
    if "k < length xs" and "k < length ys" and "is_zero (ys ! k)" for xs ys k
    using that by (simp add: series_div_def aligned_nth f_div_by_zero)
  have roe: "cell df ''ROE_%'' i =
      Some (if is_nan (Net_Income r) \<or> is_zero (Net_Income r) then NaN
            else if sign_bit (Net_Income r) = sign_bit (Shareholders_Equity b) then PosInf
            else NegInf)"
    using assms(1,2,5) unfolding assms(3,4,6)
    by (simp add: profitability_cells(6) percent_by_zero)
  have others: "cell df ''Gross_Margin_%'' i = Some (f_mul (f_div (Gross_Profit r) (Revenue r)) (Fin 100))"
    "cell df ''EBIT_Margin_%'' i = Some (f_mul (f_div (EBIT r) (Revenue r)) (Fin 100))"
    "cell df ''Net_Margin_%'' i = Some (f_mul (f_div (Net_Income r) (Revenue r)) (Fin 100))"
    "cell df ''ROA_%'' i = Some (f_mul (f_div (Net_Income r) (Total_Assets b)) (Fin 100))"
    using assms(1,2) unfolding assms(3,4,6) by (simp_all add: profitability_cells)
  have rows: "cell df ''ROE_%'' j =
      Some (f_mul (f_div (Net_Income (income a ! j)) (Shareholders_Equity (balance a ! j))) (Fin 100))"
    if "j < length (income a)" and "j < length (balance a)" for j
    using that unfolding assms(6) by (simp add: profitability_cells(6))
  obtain res where res: "run_analysis pad (income a) (balance a) = Inr res"
    using run_analysis_returns by blast
  have "fst (calculate_profitability_ratios (init (income a) (balance a))) = df"
    unfolding assms(6) by (rule calculate_frames_cong) (simp_all add: init_def)
  with run_analysis_tables(1)[OF res] have "profitability_table res = df"
    by simp
  with res roe others rows division show ?thesis
    by auto
qed

theorem zero_equity_cells_witness:
  "(3::nat) < length (income (init income_data zero_equity_balance)) \<and>
   3 < length (balance (init income_data zero_equity_balance)) \<and>
   is_zero (Shareholders_Equity (balance (init income_data zero_equity_balance) ! 3)) \<and>
   cell (fst (calculate_profitability_ratios (init income_data zero_equity_balance))) ''ROE_%'' 3 =
     Some PosInf \<and>
   cell (fst (calculate_profitability_ratios (init income_data zero_equity_balance))) ''ROA_%'' 3 =
     Some (Fin (22 / 98)) \<and>
   cell (fst (calculate_profitability_ratios (init income_data zero_equity_balance))) ''ROE_%'' 0 =
     Some (Fin (5 / 6)) \<and>
   cell (fst (calculate_profitability_ratios
       (init (income_data[3 := (income_data ! 3)\<lparr>Net_Income := Fin 0\<rparr>]) zero_equity_balance)))
     ''ROE_%'' 3 = Some NaN \<and>
   (\<exists>res. run_analysis False income_data zero_equity_balance = Inr res)"
proof -
  let ?a = "init income_data zero_equity_balance"
  let ?a' = "init (income_data[3 := (income_data ! 3)\<lparr>Net_Income := Fin 0\<rparr>]) zero_equity_balance"
  have h: "(3::nat) < length (income ?a)" "(3::nat) < length (balance ?a)"
    "is_zero (Shareholders_Equity (balance ?a ! 3))"
    by (simp_all add: init_def income_data_def balance_data_def zero_equity_balance_def)
  have h0: "(0::nat) < length (income ?a)" "(0::nat) < length (balance ?a)"
    by (simp_all add: init_def income_data_def balance_data_def zero_equity_balance_def)
  have h': "(3::nat) < length (income ?a')" "(3::nat) < length (balance ?a')"
    "is_zero (Shareholders_Equity (balance ?a' ! 3))"
    by (simp_all add: init_def income_data_def balance_data_def zero_equity_balance_def)
  note w = zero_equity_cells[OF h(1,2) refl refl h(3) refl, of False]
  note w' = zero_equity_cells[OF h'(1,2) refl refl h'(3) refl, of False]
  from w have "cell (fst (calculate_profitability_ratios ?a)) ''ROE_%'' 3 = Some PosInf"
    by (simp add: init_def income_data_def balance_data_def zero_equity_balance_def)
  moreover from w have "cell (fst (calculate_profitability_ratios ?a)) ''ROA_%'' 3 = Some (Fin (22 / 98))"
    by (simp add: init_def income_data_def balance_data_def zero_equity_balance_def
        f_div_def f_mul_def fin_of_sign_def)
  moreover from w h0 have "cell (fst (calculate_profitability_ratios ?a)) ''ROE_%'' 0 = Some (Fin (5 / 6))"
    by (simp add: init_def income_data_def balance_data_def zero_equity_balance_def
        f_div_def f_mul_def fin_of_sign_def)
  moreover from w' have "cell (fst (calculate_profitability_ratios ?a')) ''ROE_%'' 3 = Some NaN"
    by (simp add: init_def income_data_def balance_data_def zero_equity_balance_def)
  moreover from w have "\<exists>res. run_analysis False income_data zero_equity_balance = Inr res"
    by (auto simp add: init_def)
  ultimately show ?thesis
    using h by simp
qed

section \<open>Tables that are not aligned\<close>




section \<open>What the operations read and change\<close>

text \<open>
  Claim C8, as stated, fails: \<open>calculate_profitability_ratios\<close> changes
  \<open>self.ratios\<close>, and on the same two input tables \<open>identify_ratio_trends\<close> returns
  empty lists before it and five series after it, while \<open>benchmark_against_industry\<close>
  raises KeyError before the four calculations and returns a table after them.
\<close>

theorem results_depend_on_stored_ratios:
  "income (snd (calculate_profitability_ratios (init income_data balance_data))) =
     income (init income_data balance_data) \<and>
   balance (snd (calculate_profitability_ratios (init income_data balance_data))) =
     balance (init income_data balance_data) \<and>
   ratios (init income_data balance_data) = [] \<and>
   map fst (ratios (snd (calculate_profitability_ratios (init income_data balance_data)))) =
     [''profitability''] \<and>
   identify_ratio_trends (init income_data balance_data) =
     \<lparr>improving = [], declining = [], stable = []\<rparr> \<and>
   identify_ratio_trends (snd (calculate_profitability_ratios (init income_data balance_data))) =
     \<lparr>improving = [''profitability.Net_Margin_%'', ''profitability.ROA_%'', ''profitability.ROE_%''],
      declining = [''profitability.Gross_Margin_%'', ''profitability.EBIT_Margin_%''],
      stable = []\<rparr> \<and>
   benchmark_against_industry (init income_data balance_data) [] =
     Inl (KeyError ''profitability'') \<and>
   \<not> isl (benchmark_against_industry (calculate_all False (init income_data balance_data)) [])"
proof -
  have "income (snd (calculate_profitability_ratios (init income_data balance_data))) =
     income (init income_data balance_data)"
    "balance (snd (calculate_profitability_ratios (init income_data balance_data))) =
     balance (init income_data balance_data)"
    "ratios (init income_data balance_data) = []"
    "map fst (ratios (snd (calculate_profitability_ratios (init income_data balance_data)))) =
     [''profitability'']"
    by (simp_all add: init_def)
  moreover have "identify_ratio_trends (init income_data balance_data) =
     \<lparr>improving = [], declining = [], stable = []\<rparr>"
    by (simp add: identify_ratio_trends_def init_def)
  moreover have
    "identify_ratio_trends (snd (calculate_profitability_ratios (init income_data balance_data))) =
     \<lparr>improving = [''profitability.Net_Margin_%'', ''profitability.ROA_%'', ''profitability.ROE_%''],
      declining = [''profitability.Gross_Margin_%'', ''profitability.EBIT_Margin_%''],
      stable = []\<rparr>"
    by code_simp
  moreover have "benchmark_against_industry (init income_data balance_data) [] =
     Inl (KeyError ''profitability'')"
    by (simp add: benchmark_against_industry_def generate_ratio_summary_def ratio_column_def
        init_def)
  moreover have
    "\<not> isl (benchmark_against_industry (calculate_all False (init income_data balance_data)) [])"
    using script_benchmark_returns[of False income_data balance_data "[]"] by auto
  ultimately show ?thesis
    by simp
qed

lemma generate_ratio_summary_cong:
  assumes "ratios a = ratios a'" and "map Year (income a) = map Year (income a')"
  shows "generate_ratio_summary a = generate_ratio_summary a'"
proof -
  have "map (year_cell \<circ> Year) (income a) = map (year_cell \<circ> Year) (income a')"
    using assms(2) by (metis map_map)
  then show ?thesis
    unfolding generate_ratio_summary_def ratio_column_def by (simp only: assms(1))
qed

text \<open>
  Claim C8, amended. Every \<open>calculate_\<close> operation leaves the income statement and the
  balance sheet as they are and stores its table under its own category of
  \<open>self.ratios\<close>; the tables returned by the four \<open>calculate_\<close> operations and by
  \<open>analyze_dupont_model\<close> depend on the two input tables only; the result of
  \<open>identify_ratio_trends\<close> depends on the stored ratio tables only, and the result of
  \<open>benchmark_against_industry\<close> on the stored ratio tables, the years of the income
  statement and the benchmark mapping. (\<open>analyze_dupont_model\<close>, \<open>identify_ratio_trends\<close>
  and \<open>benchmark_against_industry\<close> assign nothing to the analyser, so they return no new
  state.)
\<close>

theorem operations_frame:
  "income (snd (calculate_profitability_ratios a)) = income a \<and>
   balance (snd (calculate_profitability_ratios a)) = balance a \<and>
   income (snd (calculate_liquidity_ratios a)) = income a \<and>
   balance (snd (calculate_liquidity_ratios a)) = balance a \<and>
   income (snd (calculate_leverage_ratios a)) = income a \<and>
   balance (snd (calculate_leverage_ratios a)) = balance a \<and>
   income (snd (calculate_efficiency_ratios pad a)) = income a \<and>
   balance (snd (calculate_efficiency_ratios pad a)) = balance a \<and>
   ratios (snd (calculate_profitability_ratios a)) =
     AList.update ''profitability'' (fst (calculate_profitability_ratios a)) (ratios a) \<and>
   ratios (snd (calculate_liquidity_ratios a)) =
     AList.update ''liquidity'' (fst (calculate_liquidity_ratios a)) (ratios a) \<and>
   ratios (snd (calculate_leverage_ratios a)) =
     AList.update ''leverage'' (fst (calculate_leverage_ratios a)) (ratios a) \<and>
   ratios (snd (calculate_efficiency_ratios pad a)) =
     AList.update ''efficiency'' (fst (calculate_efficiency_ratios pad a)) (ratios a) \<and>
   (income a = income a' \<and> balance a = balance a' \<longrightarrow>
      fst (calculate_profitability_ratios a) = fst (calculate_profitability_ratios a') \<and>
      fst (calculate_liquidity_ratios a) = fst (calculate_liquidity_ratios a') \<and>
      fst (calculate_leverage_ratios a) = fst (calculate_leverage_ratios a') \<and>
      fst (calculate_efficiency_ratios pad a) = fst (calculate_efficiency_ratios pad a') \<and>
      analyze_dupont_model a = analyze_dupont_model a') \<and>
   (ratios a = ratios a' \<longrightarrow> identify_ratio_trends a = identify_ratio_trends a') \<and>
   (ratios a = ratios a' \<and> map Year (income a) = map Year (income a') \<longrightarrow>
      benchmark_against_industry a industry_benchmarks =
      benchmark_against_industry a' industry_benchmarks)"
proof -
  have tables: "fst (calculate_profitability_ratios a) = fst (calculate_profitability_ratios a') \<and>
      fst (calculate_liquidity_ratios a) = fst (calculate_liquidity_ratios a') \<and>
      fst (calculate_leverage_ratios a) = fst (calculate_leverage_ratios a') \<and>
      fst (calculate_efficiency_ratios pad a) = fst (calculate_efficiency_ratios pad a') \<and>
      analyze_dupont_model a = analyze_dupont_model a'"
    if "income a = income a'" and "balance a = balance a'"
    using calculate_frames_cong[OF that] by simp
  have trends: "identify_ratio_trends a = identify_ratio_trends a'" if "ratios a = ratios a'"
    using that by (simp add: identify_ratio_trends_def)
  have bench: "benchmark_against_industry a industry_benchmarks =
      benchmark_against_industry a' industry_benchmarks"
    if "ratios a = ratios a'" and "map Year (income a) = map Year (income a')"
    using generate_ratio_summary_cong[OF that] by (simp add: benchmark_against_industry_def)
  from tables trends bench show ?thesis
    by simp
qed

theorem operations_frame_witness:
  "income (snd (calculate_profitability_ratios (init income_data balance_data))) =
     income (init income_data balance_data) \<and>
   balance (snd (calculate_profitability_ratios (init income_data balance_data))) =
     balance (init income_data balance_data) \<and>
   fst (calculate_liquidity_ratios (snd (calculate_profitability_ratios (init income_data balance_data)))) =
     fst (calculate_liquidity_ratios (init income_data balance_data)) \<and>
   analyze_dupont_model (snd (calculate_profitability_ratios (init income_data balance_data))) =
     analyze_dupont_model (init income_data balance_data) \<and>
   ratios (trend_examples\<lparr>income := income_data\<rparr>) = ratios trend_examples \<and>
   identify_ratio_trends (trend_examples\<lparr>income := income_data\<rparr>) =
     identify_ratio_trends trend_examples"
proof -
  let ?a = "init income_data balance_data"
  let ?a' = "snd (calculate_profitability_ratios ?a)"
  have same: "income ?a' = income ?a" "balance ?a' = balance ?a"
    using operations_frame[of ?a False] by simp_all
  have stored: "ratios (trend_examples\<lparr>income := income_data\<rparr>) = ratios trend_examples"
    by simp
  from operations_frame[of ?a' False ?a] same
  have "fst (calculate_liquidity_ratios ?a') = fst (calculate_liquidity_ratios ?a)"
    "analyze_dupont_model ?a' = analyze_dupont_model ?a"
    by simp_all
  moreover from operations_frame[of "trend_examples\<lparr>income := income_data\<rparr>" False trend_examples] stored
  have "identify_ratio_trends (trend_examples\<lparr>income := income_data\<rparr>) =
      identify_ratio_trends trend_examples"
    by simp
  ultimately show ?thesis
    using same stored by simp
qed

end
